theory Spec2Isabelle
  imports Complex_Main
begin

section \<open>Errors\<close>

text \<open>
  Python exceptions are values. The string carried by a constructor is the message (or the
  name) the interpreter reports. \<open>CollaboratorError\<close> tags a failure that comes out of a
  function that is not part of the modelled files (geometry engine, tessellation, the
  seasonality helper imported by the aggregator). \<open>OutsideModel\<close> is not an exception:
  it marks an input on which the model does not say what the code does (whole numbers too
  large for float64 to hold exactly).
\<close>

datatype error =
    AttributeError string
  | ValueError string
  | KeyError string
  | TypeError string
  | IndexError string
  | UnboundLocalError string
  | ZeroDivisionError
  | IndexingError
  | CollaboratorError string
  | OutsideModel string

section \<open>Time discretization (delphi/time\_discretization\_utils.py)\<close>

subsection \<open>Timestamps and numeric series values\<close>

text \<open>
  A timestamp is a timezone-naive calendar point with whole seconds, as event data
  carries it. The fields are what \<open>ts.dt.year\<close>, \<open>ts.dt.month\<close> and
  \<open>Timestamp.replace\<close> read and write.
\<close>

record timestamp =
  year :: int
  month :: int
  day :: int
  hour :: int
  minute :: int
  second :: int

text \<open>Days since 1970-01-01 in the proleptic Gregorian calendar.\<close>

definition days_from_civil :: "int \<Rightarrow> int \<Rightarrow> int \<Rightarrow> int" where
  "days_from_civil y m d =
     (let y' = (if m \<le> 2 then y - 1 else y);
          era = y' div 400;
          yoe = y' - era * 400;
          doy = (153 * (m + (if m > 2 then - 3 else 9)) + 2) div 5 + d - 1;
          doe = yoe * 365 + yoe div 4 - yoe div 100 + doy
      in era * 146097 + doe - 719468)"

definition epoch_days :: "timestamp \<Rightarrow> int" where
  "epoch_days t = days_from_civil (year t) (month t) (day t)"

text \<open>Position on the time line, in seconds; differences of timestamps are differences of it.\<close>

definition to_seconds :: "timestamp \<Rightarrow> int" where
  "to_seconds t = epoch_days t * 86400 + hour t * 3600 + minute t * 60 + second t"

text \<open>\<open>Timestamp.weekday()\<close>: Monday is 0. 1970-01-01 was a Thursday.\<close>

definition weekday :: "timestamp \<Rightarrow> int" where
  "weekday t = (epoch_days t + 3) mod 7"

text \<open>
  The values of a numeric pandas series: a finite number (always a whole number here),
  the infinities and NaN, which division and remainder by zero produce. The series are
  float64 (seconds) or int64 (years, months): both hold every whole number up to
  \<open>2^53\<close> in magnitude, and on such operands floor division and remainder give the exact
  whole-number result. Beyond that float64 rounds (\<open>-3.0 % 2**60\<close> is \<open>2**60\<close>), and
  the model does not follow the rounding: the result is \<open>Inexact\<close>, a number the model
  does not determine.
\<close>

datatype sval = Fin int | PosInf | NegInf | NaN | Inexact

definition exact_int :: "int \<Rightarrow> bool" where
  "exact_int n = (- 9007199254740992 \<le> n \<and> n \<le> 9007199254740992)"

text \<open>Series \<open>//\<close> scalar and series \<open>%\<close> scalar, with the zero-divisor fill of pandas.\<close>

fun floordiv :: "sval \<Rightarrow> int \<Rightarrow> sval" where
  "floordiv (Fin a) b =
     (if b = 0 then (if a > 0 then PosInf else if a < 0 then NegInf else NaN)
      else if exact_int a \<and> exact_int b then Fin (a div b)
      else Inexact)"
| "floordiv Inexact b = Inexact"
| "floordiv _ b = NaN"

fun pymod :: "sval \<Rightarrow> int \<Rightarrow> sval" where
  "pymod (Fin a) b =
     (if b = 0 then NaN
      else if exact_int a \<and> exact_int b then Fin (a mod b)
      else Inexact)"
| "pymod Inexact b = (if b = 0 then NaN else Inexact)"
| "pymod _ b = NaN"

text \<open>A series the model has determined, or the mark that it has not.\<close>

definition known :: "sval list \<Rightarrow> error + sval list" where
  "known xs = (if Inexact \<in> set xs then Inl (OutsideModel ''float64'') else Inr xs)"

text \<open>\<open>Series.min()\<close>: the first smallest element; the missing value on an empty series.\<close>

fun series_min :: "int list \<Rightarrow> int option" where
  "series_min [] = None"
| "series_min (x # xs) = (case series_min xs of None \<Rightarrow> Some x | Some m \<Rightarrow> Some (min x m))"

fun ts_min :: "timestamp list \<Rightarrow> timestamp option" where
  "ts_min [] = None"
| "ts_min (t # ts) =
     (case ts_min ts of None \<Rightarrow> Some t
      | Some m \<Rightarrow> Some (if to_seconds t \<le> to_seconds m then t else m))"

text \<open>\<open>series - scalar\<close> where the scalar may be missing.\<close>

definition minus_min :: "int option \<Rightarrow> int \<Rightarrow> sval" where
  "minus_min m v = (case m of None \<Rightarrow> NaN | Some b \<Rightarrow> Fin (v - b))"

subsection \<open>apply\_time\_frequency\<close>

definition midnight :: "timestamp \<Rightarrow> timestamp" where
  "midnight t = t\<lparr>hour := 0, minute := 0, second := 0\<rparr>"

text \<open>Monday 00:00:00 of the week of \<open>t\<close>, as seconds: \<open>min_day - timedelta(days=min_day.weekday())\<close>.\<close>

definition week_start :: "timestamp \<Rightarrow> int" where
  "week_start t = to_seconds (midnight t) - weekday (midnight t) * 86400"

definition apply_time_frequency :: "timestamp list \<Rightarrow> string \<Rightarrow> int \<Rightarrow> error + sval list" where
  "apply_time_frequency ts window window_size =
     (if window = ''Y'' then
        known (map (\<lambda>t. floordiv (minus_min (series_min (map year ts)) (year t)) window_size) ts)
      else if window = ''M'' then
        (let min_year = series_min (map year ts)
         in known (map (\<lambda>t. floordiv
                   (case min_year of None \<Rightarrow> NaN
                    | Some my \<Rightarrow> Fin (12 * (year t - my) + month t - 1)) window_size) ts))
      else if window = ''W'' then
        (case ts_min ts of
           None \<Rightarrow> Inl (ValueError ''cannot convert float NaN to integer'')
         | Some m \<Rightarrow>
             known (map (\<lambda>t. floordiv (floordiv (Fin (to_seconds t - week_start m)) (7*24*60*60))
                        window_size) ts))
      else if window = ''D'' then
        (let min_day = map_option (\<lambda>m. to_seconds (midnight m)) (ts_min ts)
         in known (map (\<lambda>t. floordiv (floordiv (minus_min min_day (to_seconds t)) (24*60*60))
                        window_size) ts))
      else if window = ''H'' then
        (let min_hour = map_option (\<lambda>m. to_seconds (midnight m)) (ts_min ts)
         in known (map (\<lambda>t. floordiv (floordiv (minus_min min_hour (to_seconds t)) (60*60))
                        window_size) ts))
      else if window = ''m'' then
        (let min_minute = map_option (\<lambda>m. to_seconds (midnight m)) (ts_min ts)
         in known (map (\<lambda>t. floordiv (floordiv (minus_min min_minute (to_seconds t)) 60)
                        window_size) ts))
      else if window = ''s'' then
        (let min_second = map_option (\<lambda>m. to_seconds (m\<lparr>second := 0\<rparr>)) (ts_min ts)
         in known (map (\<lambda>t. floordiv (minus_min min_second (to_seconds t)) window_size) ts))
      else Inl (UnboundLocalError ''w''))"

subsection \<open>calculate\_sazonality\<close>

text \<open>The \<open>window\<close> argument: an \<open>int\<close>, or anything else, which the code iterates as a list.\<close>

datatype window = WInt int | WList "int list"

text \<open>\<open>np.cumsum\<close> and \<open>enumerate\<close>.\<close>

fun cumsum_from :: "int \<Rightarrow> int list \<Rightarrow> int list" where
  "cumsum_from acc [] = []"
| "cumsum_from acc (x # xs) = (acc + x) # cumsum_from (acc + x) xs"

definition cumsum :: "int list \<Rightarrow> int list" where
  "cumsum xs = cumsum_from 0 xs"

definition enumerate_list :: "'a list \<Rightarrow> (nat \<times> 'a) list" where
  "enumerate_list xs = zip [0..<length xs] xs"

text \<open>\<open>sazon_n < w\<close> is false on a missing value.\<close>

fun num_less :: "sval \<Rightarrow> int \<Rightarrow> bool" where
  "num_less (Fin a) w = (a < w)"
| "num_less NegInf w = True"
| "num_less _ w = False"

fun isna :: "sval \<Rightarrow> bool" where
  "isna NaN = True"
| "isna _ = False"

text \<open>One round of the loop: \<open>sazon_idx.loc[(sazon_n < w) & sazon_idx.isna()] = i_w\<close>.\<close>

definition assign_bucket :: "sval list \<Rightarrow> nat \<times> int \<Rightarrow> sval list \<Rightarrow> sval list" where
  "assign_bucket sazon_n iw sazon_idx =
     map (\<lambda>(n, idx). if num_less n (snd iw) \<and> isna idx then Fin (int (fst iw)) else idx)
         (zip sazon_n sazon_idx)"

text \<open>
  \<open>astype(int)\<close> refuses a series with a non-finite value. The comparisons of the bucket
  loop are those of whole numbers as long as the residuals and the thresholds are exact.
\<close>

fun astype_int :: "sval list \<Rightarrow> error + int list" where
  "astype_int [] = Inr []"
| "astype_int (Fin a # xs) =
     (case astype_int xs of Inl e \<Rightarrow> Inl e | Inr ys \<Rightarrow> Inr (a # ys))"
| "astype_int (Inexact # xs) = Inl (OutsideModel ''float64'')"
| "astype_int (_ # xs) = Inl (ValueError ''Cannot convert non-finite values (NA or inf) to integer'')"

definition calculate_sazonality ::
  "timestamp list \<Rightarrow> string \<Rightarrow> window \<Rightarrow> int \<Rightarrow> error + int list" where
  "calculate_sazonality ts sazonality_type window frequency =
     (case apply_time_frequency ts sazonality_type 1 of
        Inl e \<Rightarrow> Inl e
      | Inr unitary_sazonality \<Rightarrow>
          (case window of
             WInt w \<Rightarrow>
               (if w = 0 then Inl ZeroDivisionError
                else astype_int
                       (map (\<lambda>u. pymod (floordiv u w) (frequency div w)) unitary_sazonality))
           | WList ws \<Rightarrow>
               (if \<not> (exact_int frequency \<and> list_all exact_int (cumsum ws))
                then Inl (OutsideModel ''float64'')
                else
                  (let sazon_n = map (\<lambda>u. pymod u frequency) unitary_sazonality;
                       sazon_idx = map (\<lambda>_. NaN) sazon_n
                   in astype_int
                        (fold (assign_bucket sazon_n) (enumerate_list (cumsum ws)) sazon_idx)))))"

text \<open>The timestamps of the docstring examples: 2022-01-01, 2022-01-04, 2022-01-10, 2022-12-31.\<close>

definition doc_example :: "timestamp list" where
  "doc_example =
     [\<lparr>year = 2022, month = 1, day = 1, hour = 0, minute = 0, second = 0\<rparr>,
      \<lparr>year = 2022, month = 1, day = 4, hour = 0, minute = 0, second = 0\<rparr>,
      \<lparr>year = 2022, month = 1, day = 10, hour = 0, minute = 0, second = 0\<rparr>,
      \<lparr>year = 2022, month = 12, day = 31, hour = 0, minute = 0, second = 0\<rparr>]"

text \<open>What one round of the bucket loop may leave in a slot: nothing yet, or a bucket below \<open>k\<close>.\<close>

definition bucket_ok :: "nat \<Rightarrow> sval \<Rightarrow> bool" where
  "bucket_ok k v = (v = NaN \<or> (\<exists>i<k. v = Fin (int i)))"




section \<open>Tables and session state (spated/data\_agg.py)\<close>

subsection \<open>Data frames\<close>

text \<open>
  A cell of a data frame: missing, a float (kept exact), an integer, a string, a timestamp
  or a geometry of the geometry engine's type \<open>'g\<close>.
\<close>

datatype 'g val = VNA | VNum rat | VInt int | VStr string | VTime timestamp | VGeom 'g

text \<open>
  A (Geo)DataFrame: row labels, named columns in order (each as long as the index), the
  reference frame, and whether the object is a GeoDataFrame (\<open>f_geo\<close>) or a plain DataFrame.
\<close>

record 'g frame =
  f_index :: "int list"
  f_columns :: "(string \<times> 'g val list) list"
  f_crs :: "string option"
  f_geo :: bool

definition column_names :: "'g frame \<Rightarrow> string list" where
  "column_names f = map fst (f_columns f)"

definition get_col :: "'g frame \<Rightarrow> string \<Rightarrow> 'g val list option" where
  "get_col f c = map_of (f_columns f) c"

text \<open>\<open>df[c] = values\<close>: overwrite the column where it stands, or append it.\<close>

fun set_assoc :: "string \<Rightarrow> 'v \<Rightarrow> (string \<times> 'v) list \<Rightarrow> (string \<times> 'v) list" where
  "set_assoc k v [] = [(k, v)]"
| "set_assoc k v ((k', v') # xs) =
     (if k = k' then (k, v) # xs else (k', v') # set_assoc k v xs)"

definition set_col :: "string \<Rightarrow> 'g val list \<Rightarrow> 'g frame \<Rightarrow> 'g frame" where
  "set_col c vs f = f\<lparr>f_columns := set_assoc c vs (f_columns f)\<rparr>"

definition drop_col :: "string \<Rightarrow> 'g frame \<Rightarrow> 'g frame" where
  "drop_col c f = f\<lparr>f_columns := filter (\<lambda>kv. fst kv \<noteq> c) (f_columns f)\<rparr>"

text \<open>The rows at the given positions, in that order (positions may repeat).\<close>

definition take_rows :: "nat list \<Rightarrow> 'g frame \<Rightarrow> 'g frame" where
  "take_rows ps f =
     f\<lparr>f_index := map (\<lambda>p. f_index f ! p) ps,
       f_columns := map (\<lambda>kv. (fst kv, map (\<lambda>p. snd kv ! p) ps)) (f_columns f)\<rparr>"

text \<open>\<open>df[[c1, c2, ...]]\<close>: the named columns in the order asked, or KeyError.\<close>

fun select_cols :: "string list \<Rightarrow> 'g frame \<Rightarrow> error + (string \<times> 'g val list) list" where
  "select_cols [] f = Inr []"
| "select_cols (c # cs) f =
     (case get_col f c of
        None \<Rightarrow> Inl (KeyError c)
      | Some vs \<Rightarrow> (case select_cols cs f of Inl e \<Rightarrow> Inl e | Inr rest \<Rightarrow> Inr ((c, vs) # rest)))"

text \<open>
  A GeoDataFrame handed in as a map layer (border polygons, custom cells or nodes, a
  covariate layer): one geometry per row, further attribute columns, and the CRS.
\<close>

record 'g layer =
  l_geometry :: "'g list"
  l_columns :: "(string \<times> 'g val list) list"
  l_crs :: "string option"

subsection \<open>Discretization table\<close>

record 'g cell =
  cell_id :: int
  cell_geometry :: 'g
  cell_neighbors :: "int list option"
  cell_center :: "(rat \<times> rat) option"
  cell_vars :: "(string \<times> 'g val) list"

record 'g geo_table =
  cells :: "'g cell list"
  t_crs :: "string option"

subsection \<open>Outcomes and the session object\<close>

text \<open>
  A method call either returns or raises; in both cases the object is left in some state,
  which is part of the outcome: an assignment made before a raise stays made.
\<close>

datatype 's outcome = Ok 's | Raised error 's

record 'g aggregator =
  crs :: string
  time_indexes :: "string list"
  geo_index :: string
  events_features :: "string list"
  geo_features :: "string list"
  max_borders :: "'g layer option"
  events_data :: "'g frame option"
  geo_discretization :: "'g geo_table option"

text \<open>\<open>DataAggregator.__init__\<close>\<close>

definition init :: "string \<Rightarrow> 'g aggregator" where
  "init c = \<lparr>crs = c, time_indexes = [], geo_index = ''gdiscr'', events_features = [],
             geo_features = [], max_borders = None, events_data = None,
             geo_discretization = None\<rparr>"

subsection \<open>Collaborators\<close>

text \<open>
  The functions the aggregator calls that live outside the modelled files: the geometry and
  projection engine (geopandas, shapely), the tessellation generator, the covariate
  distribution, and the seasonality helpers imported from the package's own
  \<open>time_discretization_utils\<close>. They are parameters of the model. One that can fail
  returns \<open>Inl\<close> of a message, which the caller sees as \<open>CollaboratorError\<close>.
\<close>

record 'g engine =
  points_from_xy :: "'g val \<Rightarrow> 'g val \<Rightarrow> 'g val"
  to_crs :: "string \<Rightarrow> string \<Rightarrow> 'g \<Rightarrow> 'g"
  to_datetime :: "string option \<Rightarrow> 'g val \<Rightarrow> timestamp option"
  bounds_polygon :: "'g val list \<Rightarrow> 'g"
  convex_border :: "'g val list \<Rightarrow> 'g"
  rect_cell :: "'g layer \<Rightarrow> int \<Rightarrow> int \<Rightarrow> nat \<Rightarrow> 'g"
  rect_neighbors :: "int \<Rightarrow> int \<Rightarrow> nat \<Rightarrow> int list"
  generate_H3_discretization :: "'g layer \<Rightarrow> int option \<Rightarrow> string + 'g geo_table"
  overlay_dissolve :: "(int \<times> 'g) list \<Rightarrow> 'g layer \<Rightarrow> string + (int \<times> 'g) list"
  geo_disjoint :: "'g \<Rightarrow> 'g \<Rightarrow> bool"
  geo_within :: "'g \<Rightarrow> 'g \<Rightarrow> bool"
  geo_centroid :: "'g \<Rightarrow> rat \<times> rat"
  is_projected :: "string \<Rightarrow> bool"
  sjoin_nearest :: "'g \<Rightarrow> (int \<times> 'g) list \<Rightarrow> int list"
  calculate_seasonality :: "'g val list \<Rightarrow> string \<Rightarrow> window \<Rightarrow> int \<Rightarrow> string + int list"
  apply_custom_time_events :: "'g val list \<Rightarrow> 'g frame \<Rightarrow> int \<Rightarrow> string + int list"
  addRegressorUniformDistribution ::
    "(int \<times> 'g) list \<Rightarrow> 'g layer \<Rightarrow> string + (int \<times> (string \<times> 'g val) list) list"

text \<open>\<open>GeoDataFrame.to_crs\<close>: every geometry is reprojected, the frame records the new CRS.\<close>

fun reproject_val :: "'g engine \<Rightarrow> string \<Rightarrow> string \<Rightarrow> 'g val \<Rightarrow> 'g val" where
  "reproject_val eng src dst (VGeom g) = VGeom (to_crs eng src dst g)"
| "reproject_val eng src dst v = v"

definition frame_to_crs :: "'g engine \<Rightarrow> string \<Rightarrow> string \<Rightarrow> 'g frame \<Rightarrow> 'g frame" where
  "frame_to_crs eng src dst f =
     f\<lparr>f_columns := map (\<lambda>kv. (fst kv, map (reproject_val eng src dst) (snd kv))) (f_columns f),
       f_crs := Some dst\<rparr>"

definition layer_to_crs :: "'g engine \<Rightarrow> string \<Rightarrow> string \<Rightarrow> 'g layer \<Rightarrow> 'g layer" where
  "layer_to_crs eng src dst l =
     l\<lparr>l_geometry := map (to_crs eng src dst) (l_geometry l), l_crs := Some dst\<rparr>"

subsection \<open>add\_max\_borders\<close>

definition msg_inform_events :: string where
  "msg_inform_events = ''Please inform events data using `add_events_data` method.''"

definition msg_data_or_method :: string where
  "msg_data_or_method = ''Please inform `data` or `method` parameter.''"

text \<open>
  The interpreter's message for an attribute read on \<open>None\<close>; the quotation marks of
  the Python text are written as dots.
\<close>

definition msg_none_has_no :: "string \<Rightarrow> string" where
  "msg_none_has_no a = ''.NoneType. object has no attribute .'' @ a @ ''.''"

text \<open>
  \<open>hasattr(self, "events_data")\<close>: \<open>__init__\<close> binds the attribute (to \<open>None\<close>) and
  nothing ever deletes it, so every session object has it.
\<close>

definition hasattr_events_data :: "'g aggregator \<Rightarrow> bool" where
  "hasattr_events_data self = True"

text \<open>A one-row layer holding a border polygon, with the session CRS.\<close>

definition border_layer :: "string \<Rightarrow> 'g \<Rightarrow> 'g layer" where
  "border_layer c pol = \<lparr>l_geometry = [pol], l_columns = [], l_crs = Some c\<rparr>"

text \<open>
  The two estimation branches share their shape: the guard, then the read of
  \<open>self.events_data.geometry\<close>, then the border built by the engine from the event points.
\<close>

definition border_from_events ::
  "('g val list \<Rightarrow> 'g) \<Rightarrow> 'g aggregator \<Rightarrow> 'g aggregator outcome" where
  "border_from_events build self =
     (if \<not> hasattr_events_data self then Raised (AttributeError msg_inform_events) self
      else case events_data self of
        None \<Rightarrow> Raised (AttributeError (msg_none_has_no ''geometry'')) self
      | Some ev \<Rightarrow>
          (case get_col ev ''geometry'' of
             None \<Rightarrow> Raised (AttributeError ''geometry'') self
           | Some gs \<Rightarrow> Ok (self\<lparr>max_borders := Some (border_layer (crs self) (build gs))\<rparr>)))"

definition add_max_borders ::
  "'g engine \<Rightarrow> 'g aggregator \<Rightarrow> 'g layer option \<Rightarrow> string option \<Rightarrow> 'g aggregator outcome" where
  "add_max_borders eng self data method =
     (case data of
        Some d \<Rightarrow>
          (case l_crs d of
             None \<Rightarrow> Ok (self\<lparr>max_borders := Some d\<rparr>)
           | Some c \<Rightarrow>
               if c \<noteq> crs self
               then Ok (self\<lparr>max_borders := Some (layer_to_crs eng c (crs self) d)\<rparr>)
               else Ok (self\<lparr>max_borders := Some d\<rparr>))
      | None \<Rightarrow>
          if method = Some ''rectangle'' then border_from_events (bounds_polygon eng) self
          else if method = Some ''convex'' then border_from_events (convex_border eng) self
          else Raised (ValueError msg_data_or_method) self)"

subsection \<open>add\_time\_discretization\<close>

text \<open>\<open>f'tdiscr_{i_col}'\<close>: the decimal numeral of a positive integer.\<close>

fun str_nat :: "nat \<Rightarrow> string" where
  "str_nat n =
     (if n < 10 then [char_of (48 + n)] else str_nat (n div 10) @ [char_of (48 + n mod 10)])"

declare str_nat.simps [simp del]

definition t_col_name :: "nat \<Rightarrow> string" where
  "t_col_name i = ''tdiscr_'' @ str_nat i"

text \<open>Reading a numeral back; the loop below terminates because the names differ.\<close>

definition nat_of_str :: "string \<Rightarrow> nat" where
  "nat_of_str s = foldl (\<lambda>a c. 10 * a + (of_char c - 48)) 0 s"

definition t_col_number :: "string \<Rightarrow> nat" where
  "t_col_number s = nat_of_str (drop 7 s)"

lemma nat_of_str_str_nat: "nat_of_str (str_nat n) = n"
proof (induction n rule: str_nat.induct)
  case (1 n)
  show ?case
  proof (cases "n < 10")
    case True
    then have "(48 + n) mod 256 = 48 + n" by simp
    with True show ?thesis by (subst str_nat.simps) (simp add: nat_of_str_def)
  next
    case False
    have m: "(48 + n mod 10) mod 256 = 48 + n mod 10"
      by (rule mod_less) (simp add: less_le_trans[OF add_strict_left_mono[OF pos_mod_bound]])
    have "nat_of_str (str_nat n) = 10 * nat_of_str (str_nat (n div 10)) + n mod 10"
      using False m by (subst str_nat.simps) (simp add: nat_of_str_def)
    with 1 False show ?thesis by simp
  qed
qed

lemma t_col_number_name: "t_col_number (t_col_name i) = i"
  by (simp add: t_col_number_def t_col_name_def nat_of_str_str_nat)

text \<open>The \<open>while True\<close> loop that finds the first free column name.\<close>

function new_t_col :: "string list \<Rightarrow> nat \<Rightarrow> string" where
  "new_t_col cols i_col =
     (if t_col_name i_col \<in> set cols then new_t_col cols (i_col + 1) else t_col_name i_col)"
  by pat_completeness auto
termination new_t_col
proof (relation "measure (\<lambda>(cols, i). Suc (Max (insert 0 (t_col_number ` set cols))) - i)")
  show "wf (measure (\<lambda>(cols, i). Suc (Max (insert 0 (t_col_number ` set cols))) - i))"
    by simp
next
  fix cols :: "string list" and i_col :: nat
  assume "t_col_name i_col \<in> set cols"
  then have "t_col_number (t_col_name i_col) \<in> insert 0 (t_col_number ` set cols)"
    by blast
  then have "i_col \<le> Max (insert 0 (t_col_number ` set cols))"
    unfolding t_col_number_name by (intro Max_ge) simp_all
  then show "((cols, i_col + 1), (cols, i_col))
      \<in> measure (\<lambda>(cols, i). Suc (Max (insert 0 (t_col_number ` set cols))) - i)"
    by simp
qed

declare new_t_col.simps [simp del]

definition msg_frequency_multiple :: string where
  "msg_frequency_multiple = ''Parameter `frequency` must be a multiple of `window`.''"

definition msg_frequency_sum :: string where
  "msg_frequency_sum = ''Parameter `frequency` must be equal sum of `window`.''"

text \<open>The first argument: a unit string, or a table of custom time events.\<close>

datatype 'g seasonality = Unit string | Custom "'g frame"

text \<open>
  The two parameter checks. The first divides by the window (\<open>frequency % window\<close>), the
  second is the chained comparison \<open>sum(window) != frequency != 0\<close>, that is
  \<open>sum(window) != frequency and frequency != 0\<close>.
\<close>

definition check_window :: "window \<Rightarrow> int \<Rightarrow> error option" where
  "check_window window frequency =
     (case window of
        WInt w \<Rightarrow>
          if w = 0 then Some ZeroDivisionError
          else if frequency mod w \<noteq> 0 then Some (ValueError msg_frequency_multiple)
          else None
      | WList ws \<Rightarrow>
          if sum_list ws \<noteq> frequency \<and> frequency \<noteq> 0 then Some (ValueError msg_frequency_sum)
          else None)"

text \<open>
  \<open>self.time_indexes.append(t_col)\<close>, then the right-hand side (the read of the \<open>ts\<close>
  column and the helper call), then the store of the new column.
\<close>

definition store_time_column ::
  "'g aggregator \<Rightarrow> 'g frame \<Rightarrow> string \<Rightarrow> ('g val list \<Rightarrow> string + int list) \<Rightarrow> 'g aggregator outcome" where
  "store_time_column self ev t_col compute =
     (let self1 = self\<lparr>time_indexes := time_indexes self @ [t_col]\<rparr>
      in case get_col ev ''ts'' of
           None \<Rightarrow> Raised (KeyError ''ts'') self1
         | Some ts \<Rightarrow>
             (case compute ts of
                Inl m \<Rightarrow> Raised (CollaboratorError m) self1
              | Inr col \<Rightarrow> Ok (self1\<lparr>events_data := Some (set_col t_col (map VInt col) ev)\<rparr>)))"

definition add_time_discretization ::
  "'g engine \<Rightarrow> 'g aggregator \<Rightarrow> 'g seasonality \<Rightarrow> window \<Rightarrow> int \<Rightarrow> 'g aggregator outcome" where
  "add_time_discretization eng self seasonality_type window frequency =
     (case events_data self of
        None \<Rightarrow> Raised (AttributeError msg_inform_events) self
      | Some ev \<Rightarrow>
          (let t_col = new_t_col (column_names ev) 1
           in case seasonality_type of
                Custom time_disc_df \<Rightarrow>
                  store_time_column self ev t_col
                    (\<lambda>ts. apply_custom_time_events eng ts time_disc_df 0)
              | Unit u \<Rightarrow>
                  (case check_window window frequency of
                     Some e \<Rightarrow> Raised e self
                   | None \<Rightarrow>
                       store_time_column self ev t_col
                         (\<lambda>ts. calculate_seasonality eng ts u window frequency))))"

subsection \<open>add\_events\_data\<close>

text \<open>
  The caller's table is an object the caller keeps a reference to. The heap maps
  references to objects; the method receives the reference.
\<close>

type_synonym 'g heap = "nat \<Rightarrow> 'g frame"

fun is_str :: "'g val \<Rightarrow> bool" where
  "is_str (VStr s) = True"
| "is_str v = False"

fun is_time :: "'g val \<Rightarrow> bool" where
  "is_time (VTime t) = True"
| "is_time v = False"

fun time_key :: "'g val \<Rightarrow> int" where
  "time_key (VTime t) = to_seconds t"
| "time_key v = 0"

text \<open>\<open>pd.to_datetime\<close> over a column of strings: missing stays missing, a failure raises.\<close>

fun parse_col :: "'g engine \<Rightarrow> string option \<Rightarrow> 'g val list \<Rightarrow> 'g val list option" where
  "parse_col eng fmt [] = Some []"
| "parse_col eng fmt (VNA # vs) = map_option ((#) VNA) (parse_col eng fmt vs)"
| "parse_col eng fmt (v # vs) =
     (case to_datetime eng fmt v of
        None \<Rightarrow> None
      | Some t \<Rightarrow> map_option ((#) (VTime t)) (parse_col eng fmt vs))"

text \<open>\<open>sort_values('ts', ascending=True)\<close>: the row positions by time, missing values last.\<close>

definition argsort_ts :: "'g val list \<Rightarrow> nat list" where
  "argsort_ts vs =
     (let ps = [0..<length vs]
      in sort_key (\<lambda>p. time_key (vs ! p)) (filter (\<lambda>p. is_time (vs ! p)) ps)
         @ filter (\<lambda>p. \<not> is_time (vs ! p)) ps)"

text \<open>The last statements: extend the feature list, keep the needed columns, copy.\<close>

definition events_select ::
  "'g heap \<Rightarrow> 'g aggregator \<Rightarrow> 'g frame \<Rightarrow> string list \<Rightarrow> string list
     \<Rightarrow> ('g heap \<times> 'g aggregator) outcome" where
  "events_select heap self gdf feature_cols special_cols =
     (let self1 = self\<lparr>events_features := events_features self @ feature_cols\<rparr>
      in case select_cols (feature_cols @ special_cols) gdf of
           Inl e \<Rightarrow> Raised e (heap, self1)
         | Inr cols \<Rightarrow> Ok (heap, self1\<lparr>events_data := Some (gdf\<lparr>f_columns := cols\<rparr>)\<rparr>))"

text \<open>The timestamp part, working on the session's own table \<open>gdf\<close>.\<close>

definition events_finish ::
  "'g engine \<Rightarrow> 'g heap \<Rightarrow> 'g aggregator \<Rightarrow> 'g frame \<Rightarrow> string option \<Rightarrow> string list
     \<Rightarrow> string option \<Rightarrow> ('g heap \<times> 'g aggregator) outcome" where
  "events_finish eng heap self gdf datetime_col feature_cols datetime_format =
     (case datetime_col of
        None \<Rightarrow> events_select heap self gdf feature_cols [''geometry'']
      | Some dc \<Rightarrow>
          (case get_col gdf dc of
             None \<Rightarrow> Raised (KeyError dc) (heap, self)
           | Some ts \<Rightarrow>
               (case (if \<exists>v\<in>set ts. is_str v then parse_col eng datetime_format ts else Some ts) of
                  None \<Rightarrow> Raised (CollaboratorError ''to_datetime'') (heap, self)
                | Some tcol \<Rightarrow>
                    (let gdf' = take_rows (argsort_ts tcol) (set_col ''ts'' tcol gdf)
                     in events_select heap (self\<lparr>events_data := Some gdf'\<rparr>) gdf' feature_cols
                          [''geometry'', ''ts'']))))"

definition add_events_data ::
  "'g engine \<Rightarrow> 'g heap \<times> 'g aggregator \<Rightarrow> nat \<Rightarrow> string option \<Rightarrow> string \<Rightarrow> string
     \<Rightarrow> string list \<Rightarrow> string option \<Rightarrow> ('g heap \<times> 'g aggregator) outcome" where
  "add_events_data eng st events_data_ref datetime_col lat_col lon_col feature_cols datetime_format =
     (let heap = fst st; self = snd st; arg = heap events_data_ref
      in if \<not> f_geo arg then
           (case get_col arg lon_col of
              None \<Rightarrow> Raised (KeyError lon_col) st
            | Some lons \<Rightarrow>
                (case get_col arg lat_col of
                   None \<Rightarrow> Raised (KeyError lat_col) st
                 | Some lats \<Rightarrow>
                     (let arg' = set_col ''geometry'' (map2 (points_from_xy eng) lons lats) arg;
                          heap' = heap(events_data_ref := arg');
                          gdf = frame_to_crs eng ''epsg:4326'' (crs self)
                                  (arg'\<lparr>f_geo := True, f_crs := Some ''epsg:4326''\<rparr>)
                      in events_finish eng heap' (self\<lparr>events_data := Some gdf\<rparr>) gdf
                           datetime_col feature_cols datetime_format)))
         else
           (let gdf = (case f_crs arg of
                         None \<Rightarrow> arg\<lparr>f_crs := Some (crs self)\<rparr>
                       | Some c \<Rightarrow> frame_to_crs eng c (crs self) arg)
            in events_finish eng heap (self\<lparr>events_data := Some gdf\<rparr>) gdf
                 datetime_col feature_cols datetime_format))"

subsection \<open>add\_geo\_discretization\<close>

definition msg_inform_limits :: string where
  "msg_inform_limits = ''Please inform geographical limits using `add_max_borders` method.''"

definition msg_custom_polygons :: string where
  "msg_custom_polygons =
     ''Please inform `custom_data` to be used as geographical discretization.''"

definition msg_custom_graph :: string where
  "msg_custom_graph = ''Please inform `custom_data` to be used as grpah discretization.''"

definition msg_invalid_discr_type :: "string \<Rightarrow> string" where
  "msg_invalid_discr_type d = ''Invalid `discr_type` value '' @ d @ ''.''"

definition msg_naive_geometries :: string where
  "msg_naive_geometries = ''Cannot transform naive geometries.  Please set a crs on the object first.''"

definition new_cell :: "int \<Rightarrow> 'g \<Rightarrow> int list option \<Rightarrow> 'g cell" where
  "new_cell i g ns =
     \<lparr>cell_id = i, cell_geometry = g, cell_neighbors = ns, cell_center = None, cell_vars = []\<rparr>"

definition id_geometry :: "'g cell list \<Rightarrow> (int \<times> 'g) list" where
  "id_geometry cs = map (\<lambda>c. (cell_id c, cell_geometry c)) cs"

text \<open>
  Modelled from the spec: \<open>rectangle_discretization\<close> of the package's \<open>squares\<close> module,
  which is not among the sources. The spec gives a regular \<open>nx\<close> by \<open>ny\<close> grid over the
  bounding box of the border, ids assigned row-major (so cell \<open>k\<close> is the \<open>k\<close>-th in
  row-major order), adjacency by the grid's connectivity. The shape of a cell and the
  connectivity convention are left to the engine. A missing resolution is a failure.
\<close>

definition rectangle_discretization ::
  "'g engine \<Rightarrow> 'g layer \<Rightarrow> int option \<Rightarrow> int option \<Rightarrow> string + 'g geo_table" where
  "rectangle_discretization eng gdf nx ny =
     (case (nx, ny) of
        (Some x, Some y) \<Rightarrow>
          Inr \<lparr>cells = map (\<lambda>k. new_cell (int k) (rect_cell eng gdf x y k)
                                 (Some (rect_neighbors eng x y k))) [0..<nat (x * y)],
               t_crs = l_crs gdf\<rparr>
      | _ \<Rightarrow> Inl ''rectangle_discretization: missing grid resolution'')"

text \<open>
  \<open>pd.merge(left, limited, on='id', how='right')\<close>: one row per row of the clipped table,
  in its order, with the columns of every raw row of that id; a clipped id with no raw
  row gets missing values in the raw columns.
\<close>

definition merge_right :: "'g cell list \<Rightarrow> (int \<times> 'g) list \<Rightarrow> 'g cell list" where
  "merge_right left limited =
     concat (map (\<lambda>(i, g).
        case filter (\<lambda>c. cell_id c = i) left of
          [] \<Rightarrow> [new_cell i g None]
        | ms \<Rightarrow> map (\<lambda>c. c\<lparr>cell_geometry := g\<rparr>) ms) limited)"

text \<open>
  Lines 331 to 343. \<open>corr_index_dict\<close> maps a raw id to the row position (a later row wins
  on a repeated id); \<open>truthy\<close> is the test \<open>if corr_index_dict.get(n):\<close>, false on a
  missing key and on the value 0.
\<close>

definition corr_index_dict :: "'g cell list \<Rightarrow> int \<Rightarrow> nat option" where
  "corr_index_dict cs = map_of (rev (zip (map cell_id cs) [0..<length cs]))"

fun truthy :: "nat option \<Rightarrow> bool" where
  "truthy None = False"
| "truthy (Some k) = (k \<noteq> 0)"

fun remap_neighbors :: "(int \<Rightarrow> nat option) \<Rightarrow> int list \<Rightarrow> int list" where
  "remap_neighbors d [] = []"
| "remap_neighbors d (n # ns) =
     (if truthy (d n) then (case d n of Some k \<Rightarrow> int k # remap_neighbors d ns
                            | None \<Rightarrow> remap_neighbors d ns)
      else remap_neighbors d ns)"

fun reindex_rows :: "(int \<Rightarrow> nat option) \<Rightarrow> nat \<Rightarrow> 'g cell list \<Rightarrow> error + 'g cell list" where
  "reindex_rows d ind [] = Inr []"
| "reindex_rows d ind (c # cs) =
     (case cell_neighbors c of
        None \<Rightarrow> Inl (TypeError ''.float. object is not iterable'')
      | Some n_list \<Rightarrow>
          (case reindex_rows d (ind + 1) cs of
             Inl e \<Rightarrow> Inl e
           | Inr rest \<Rightarrow>
               Inr (c\<lparr>cell_id := int ind, cell_neighbors := Some (remap_neighbors d n_list)\<rparr>
                    # rest)))"

definition reindex_neighbors :: "'g cell list \<Rightarrow> error + 'g cell list" where
  "reindex_neighbors cs = reindex_rows (corr_index_dict cs) 0 cs"

text \<open>The custom table of the C and G branches: sequential ids, then the CRS rule.\<close>

definition custom_table :: "'g engine \<Rightarrow> 'g aggregator \<Rightarrow> 'g layer \<Rightarrow> 'g geo_table" where
  "custom_table eng self custom_data =
     (let cs = map (\<lambda>(k, g). new_cell (int k) g None) (enumerate_list (l_geometry custom_data))
      in case l_crs custom_data of
           None \<Rightarrow> \<lparr>cells = cs, t_crs = Some (crs self)\<rparr>
         | Some c \<Rightarrow>
             if c \<noteq> crs self
             then \<lparr>cells = map (\<lambda>x. x\<lparr>cell_geometry := to_crs eng c (crs self) (cell_geometry x)\<rparr>) cs,
                   t_crs = Some (crs self)\<rparr>
             else \<lparr>cells = cs, t_crs = Some c\<rparr>)"

text \<open>Neighbours of custom polygons: every other row that is not disjoint from the row.\<close>

definition compute_neighbors :: "'g engine \<Rightarrow> 'g cell list \<Rightarrow> 'g cell list" where
  "compute_neighbors eng cs =
     map (\<lambda>row. row\<lparr>cell_neighbors :=
            Some (filter (\<lambda>n. n \<noteq> cell_id row)
                    (map cell_id (filter (\<lambda>c. \<not> geo_disjoint eng (cell_geometry c)
                                                    (cell_geometry row)) cs)))\<rparr>) cs"

text \<open>
  A left spatial join of the events with (id, geometry) rows: an event keeps one row per
  match, or one row with a missing id; an event without geometry matches nothing. The
  result is the row positions to keep and the joined id column.
\<close>

definition join_matches :: "('g \<Rightarrow> int list) \<Rightarrow> 'g val list \<Rightarrow> int list list" where
  "join_matches matcher geoms = map (\<lambda>v. case v of VGeom p \<Rightarrow> matcher p | _ \<Rightarrow> []) geoms"

definition join_positions :: "int list list \<Rightarrow> nat list" where
  "join_positions ms =
     concat (map (\<lambda>(p, m). replicate (max 1 (length m)) p) (enumerate_list ms))"

definition join_ids :: "int list list \<Rightarrow> 'g val list" where
  "join_ids ms = concat (map (\<lambda>m. if m = [] then [VNA] else map VInt m) ms)"

text \<open>The common tail of the R, H and C branches: centroids, then events to cells.\<close>

definition assign_events :: "'g engine \<Rightarrow> 'g aggregator \<Rightarrow> 'g geo_table \<Rightarrow> 'g aggregator outcome" where
  "assign_events eng self tbl =
     (case events_data self of
        None \<Rightarrow> Raised (AttributeError (msg_none_has_no ''drop'')) self
      | Some ev \<Rightarrow>
          (let ev0 = drop_col ''gdiscr'' ev
           in case get_col ev0 ''geometry'' of
                None \<Rightarrow> Raised (AttributeError ''geometry'') self
              | Some geoms \<Rightarrow>
                  (let ms = join_matches
                              (\<lambda>p. map cell_id (filter (\<lambda>c. geo_within eng p (cell_geometry c))
                                                   (cells tbl))) geoms
                   in Ok (self\<lparr>events_data :=
                            Some (set_col ''gdiscr'' (join_ids ms)
                                    (take_rows (join_positions ms) ev0))\<rparr>))))"

definition finish_discretization :: "'g engine \<Rightarrow> 'g aggregator \<Rightarrow> 'g geo_table \<Rightarrow> 'g aggregator outcome" where
  "finish_discretization eng self tbl =
     (case t_crs tbl of
        None \<Rightarrow> Raised (ValueError msg_naive_geometries) self
      | Some c \<Rightarrow>
          (let tbl' = tbl\<lparr>cells := map (\<lambda>x. x\<lparr>cell_center :=
                            Some (geo_centroid eng (to_crs eng c ''epsg:4088'' (cell_geometry x)))\<rparr>)
                          (cells tbl)\<rparr>
           in assign_events eng (self\<lparr>geo_discretization := Some tbl'\<rparr>) tbl'))"

text \<open>The H branch: tessellate, clip to the border, merge, renumber.\<close>

definition hexagonal ::
  "'g engine \<Rightarrow> 'g aggregator \<Rightarrow> 'g layer \<Rightarrow> int option \<Rightarrow> 'g aggregator outcome" where
  "hexagonal eng self mb hex_discr_param =
     (case generate_H3_discretization eng mb hex_discr_param of
        Inl m \<Rightarrow> Raised (CollaboratorError m) self
      | Inr raw \<Rightarrow>
          (let self1 = self\<lparr>geo_discretization := Some raw\<rparr>
           in case overlay_dissolve eng (id_geometry (cells raw)) mb of
                Inl m \<Rightarrow> Raised (CollaboratorError m) self1
              | Inr limited \<Rightarrow>
                  (let merged = merge_right (cells raw) limited;
                       self2 = self1\<lparr>geo_discretization := Some (raw\<lparr>cells := merged\<rparr>)\<rparr>
                   in case reindex_neighbors merged of
                        Inl e \<Rightarrow> Raised e self2
                      | Inr cs \<Rightarrow>
                          finish_discretization eng
                            (self2\<lparr>geo_discretization := Some (raw\<lparr>cells := cs\<rparr>)\<rparr>)
                            (raw\<lparr>cells := cs\<rparr>))))"

text \<open>
  The G branch after the node table is stored. \<open>unique\<close> keeps first occurrences in
  order; \<open>node_idx_dict\<close> is the inverted \<open>dict(enumerate(...))\<close>.
\<close>

fun int_values :: "'g val list \<Rightarrow> int list" where
  "int_values [] = []"
| "int_values (VInt n # vs) = n # int_values vs"
| "int_values (v # vs) = int_values vs"

definition unique :: "'a list \<Rightarrow> 'a list" where
  "unique xs = rev (remdups (rev xs))"

definition node_idx_dict :: "'g val list \<Rightarrow> int \<Rightarrow> nat option" where
  "node_idx_dict node_id =
     (let u = unique (int_values node_id) in map_of (zip u [0..<length u]))"

fun map_node :: "(int \<Rightarrow> nat option) \<Rightarrow> 'g val \<Rightarrow> 'g val" where
  "map_node d (VInt n) = (case d n of Some k \<Rightarrow> VInt (int k) | None \<Rightarrow> VNA)"
| "map_node d v = VNA"

text \<open>\<open>drop_duplicates(subset=["index"], keep="first")\<close>: the first row of every label.\<close>

definition first_positions :: "int list \<Rightarrow> nat list" where
  "first_positions labels =
     filter (\<lambda>p. labels ! p \<notin> set (take p labels)) [0..<length labels]"

fun is_geom :: "'g val \<Rightarrow> bool" where
  "is_geom (VGeom g) = True"
| "is_geom v = False"

text \<open>The mask \<open>~geometry.within(border)\<close> on one event.\<close>

fun outside :: "'g engine \<Rightarrow> 'g \<Rightarrow> 'g val \<Rightarrow> bool" where
  "outside eng b (VGeom p) = (\<not> geo_within eng p b)"
| "outside eng b v = False"

text \<open>
  The last statement of the branch. The mask is indexed by the events that have a
  geometry; \<open>.loc\<close> refuses a boolean mask that does not cover every row.
\<close>

definition null_outside ::
  "'g engine \<Rightarrow> 'g aggregator \<Rightarrow> 'g layer \<Rightarrow> 'g frame \<Rightarrow> 'g aggregator outcome" where
  "null_outside eng self mb ev =
     (case get_col ev ''geometry'' of
        None \<Rightarrow> Raised (KeyError ''geometry'') self
      | Some gs \<Rightarrow>
          (case l_geometry mb of
             [] \<Rightarrow> Raised (IndexError ''index 0 is out of bounds for axis 0 with size 0'') self
           | b # _ \<Rightarrow>
               if \<exists>v\<in>set gs. \<not> is_geom v then Raised IndexingError self
               else (case get_col ev ''gdiscr'' of
                       None \<Rightarrow> Raised (KeyError ''gdiscr'') self
                     | Some gd \<Rightarrow>
                         Ok (self\<lparr>events_data := Some (set_col ''gdiscr''
                               (map2 (\<lambda>g d. if outside eng b g then VNA else d) gs gd) ev)\<rparr>))))"

text \<open>
  \<open>gpd.sjoin_nearest\<close> of the events with the nodes, both in epsg:29193: for every event
  the ids of its nearest nodes.
\<close>

definition graph_node_ids ::
  "'g engine \<Rightarrow> string \<Rightarrow> 'g geo_table \<Rightarrow> 'g val list \<Rightarrow> int list list" where
  "graph_node_ids eng tc tbl geoms =
     join_matches
       (\<lambda>p. sjoin_nearest eng p
              (map (\<lambda>(i, g). (i, to_crs eng tc ''epsg:29193'' g)) (id_geometry (cells tbl))))
       geoms"

definition graph_assignment ::
  "'g engine \<Rightarrow> 'g aggregator \<Rightarrow> 'g layer \<Rightarrow> 'g geo_table \<Rightarrow> 'g aggregator outcome" where
  "graph_assignment eng self mb tbl =
     (case events_data self of
        None \<Rightarrow> Raised (AttributeError (msg_none_has_no ''to_crs'')) self
      | Some ev \<Rightarrow>
          (case (f_crs ev, t_crs tbl) of
             (Some c, Some tc) \<Rightarrow>
               (let ev29 = frame_to_crs eng c ''epsg:29193'' ev
                in case get_col ev29 ''geometry'' of
                     None \<Rightarrow> Raised (AttributeError ''geometry'') self
                   | Some geoms \<Rightarrow>
                       (let ms = graph_node_ids eng tc tbl geoms;
                            node_id = join_ids ms;
                            joined = set_col ''node_id'' node_id
                                       (frame_to_crs eng ''epsg:29193'' (crs self)
                                          (take_rows (join_positions ms) ev29));
                            ev1 = drop_col ''node_id''
                                    (set_col ''gdiscr''
                                       (map (map_node (node_idx_dict node_id)) node_id) joined)
                        in if ''index'' \<in> set (column_names ev1)
                           then Raised (ValueError ''cannot insert index, already exists'')
                                  (self\<lparr>events_data := Some ev1\<rparr>)
                           else (let ev2 = take_rows (first_positions (f_index ev1)) ev1
                                 in null_outside eng (self\<lparr>events_data := Some ev2\<rparr>) mb ev2)))
           | _ \<Rightarrow> Raised (ValueError msg_naive_geometries) self))"

definition add_geo_discretization ::
  "'g engine \<Rightarrow> 'g aggregator \<Rightarrow> string \<Rightarrow> int option \<Rightarrow> int option \<Rightarrow> int option
     \<Rightarrow> 'g layer option \<Rightarrow> 'g aggregator outcome" where
  "add_geo_discretization eng self discr_type hex_discr_param rect_discr_param_x
       rect_discr_param_y custom_data =
     (case max_borders self of
        None \<Rightarrow> Raised (ValueError msg_inform_limits) self
      | Some mb \<Rightarrow>
          if discr_type = ''R'' then
            (case rectangle_discretization eng mb rect_discr_param_x rect_discr_param_y of
               Inl m \<Rightarrow> Raised (CollaboratorError m) self
             | Inr tbl \<Rightarrow> finish_discretization eng (self\<lparr>geo_discretization := Some tbl\<rparr>) tbl)
          else if discr_type = ''H'' then hexagonal eng self mb hex_discr_param
          else if discr_type = ''C'' then
            (case custom_data of
               None \<Rightarrow> Raised (ValueError msg_custom_polygons) self
             | Some cd \<Rightarrow>
                 (let t = custom_table eng self cd;
                      t' = t\<lparr>cells := compute_neighbors eng (cells t)\<rparr>
                  in finish_discretization eng (self\<lparr>geo_discretization := Some t'\<rparr>) t'))
          else if discr_type = ''G'' then
            (case custom_data of
               None \<Rightarrow> Raised (ValueError msg_custom_graph) self
             | Some cd \<Rightarrow>
                 (let t = custom_table eng self cd
                  in graph_assignment eng (self\<lparr>geo_discretization := Some t\<rparr>) mb t))
          else Raised (ValueError (msg_invalid_discr_type discr_type)) self)"

subsection \<open>add\_geo\_variable\<close>





subsection \<open>The aggregator's own errors\<close>

definition invalid_discr_prefix :: string where
  "invalid_discr_prefix = ''Invalid `discr_type` value ''"

text \<open>
  The errors the aggregator raises by a \<open>raise\<close> statement of its own: the precondition,
  validation and unsupported-type errors of the error design.
\<close>

fun documented :: "error \<Rightarrow> bool" where
  "documented (AttributeError m) = (m = msg_inform_events)"
| "documented (ValueError m) =
     (m \<in> {msg_data_or_method, msg_frequency_multiple, msg_frequency_sum, msg_inform_limits,
            msg_custom_polygons, msg_custom_graph}
      \<or> take (length invalid_discr_prefix) m = invalid_discr_prefix)"
| "documented e = False"

subsection \<open>Reading an outcome\<close>

fun state_of :: "'s outcome \<Rightarrow> 's" where
  "state_of (Ok s) = s"
| "state_of (Raised e s) = s"

section \<open>A small concrete world\<close>

text \<open>
  An instance of the collaborators on which the model can be run: geometries are
  axis-parallel boxes with integer corners (a point is a box of size zero), reprojection
  is the identity, the nearest node is the first node, and the seasonality helper is
  \<open>calculate_sazonality\<close> applied to the timestamps of the column.
\<close>

type_synonym box = "(int \<times> int) \<times> (int \<times> int)"

definition box_within :: "box \<Rightarrow> box \<Rightarrow> bool" where
  "box_within a b =
     (fst (fst b) \<le> fst (fst a) \<and> snd (fst b) \<le> snd (fst a) \<and>
      fst (snd a) \<le> fst (snd b) \<and> snd (snd a) \<le> snd (snd b))"

definition box_disjoint :: "box \<Rightarrow> box \<Rightarrow> bool" where
  "box_disjoint a b =
     (fst (snd a) < fst (fst b) \<or> fst (snd b) < fst (fst a) \<or>
      snd (snd a) < snd (fst b) \<or> snd (snd b) < snd (fst a))"

fun box_of_xy :: "box val \<Rightarrow> box val \<Rightarrow> box val" where
  "box_of_xy (VInt x) (VInt y) = VGeom ((x, y), (x, y))"
| "box_of_xy a b = VNA"

fun times_of :: "box val list \<Rightarrow> timestamp list" where
  "times_of [] = []"
| "times_of (VTime t # vs) = t # times_of vs"
| "times_of (v # vs) = times_of vs"

definition demo_seasonality :: "box val list \<Rightarrow> string \<Rightarrow> window \<Rightarrow> int \<Rightarrow> string + int list" where
  "demo_seasonality ts u w f =
     (case calculate_sazonality (times_of ts) u w f of
        Inl e \<Rightarrow> Inl ''calculate_seasonality failed''
      | Inr r \<Rightarrow> Inr r)"

definition demo_engine :: "box engine" where
  "demo_engine =
     \<lparr>points_from_xy = box_of_xy,
      to_crs = (\<lambda>src dst g. g),
      to_datetime = (\<lambda>fmt v. None),
      bounds_polygon = (\<lambda>gs. ((0, 0), (10, 10))),
      convex_border = (\<lambda>gs. ((0, 0), (10, 10))),
      rect_cell = (\<lambda>gdf nx ny k. ((int k, 0), (int k + 1, 1))),
      rect_neighbors = (\<lambda>nx ny k. []),
      generate_H3_discretization = (\<lambda>gdf res. Inl ''no tessellation''),
      overlay_dissolve = (\<lambda>cs gdf. Inr cs),
      geo_disjoint = box_disjoint,
      geo_within = box_within,
      geo_centroid = (\<lambda>g. (0, 0)),
      is_projected = (\<lambda>c. False),
      sjoin_nearest = (\<lambda>p nodes. map fst (take 1 nodes)),
      calculate_seasonality = demo_seasonality,
      apply_custom_time_events = (\<lambda>ts df nan_idx. Inl ''no custom events''),
      addRegressorUniformDistribution = (\<lambda>cs l. Inr [])\<rparr>"

definition demo_border :: "box layer" where
  "demo_border = \<lparr>l_geometry = [((0, 0), (10, 10))], l_columns = [], l_crs = Some ''epsg:4326''\<rparr>"

definition demo_cells :: "box layer" where
  "demo_cells = \<lparr>l_geometry = [((0, 0), (5, 10)), ((5, 0), (10, 10))], l_columns = [],
                  l_crs = Some ''epsg:4326''\<rparr>"

definition demo_table :: "box frame" where
  "demo_table =
     \<lparr>f_index = [0, 1],
      f_columns = [(''lat'', [VInt 3, VInt 20]), (''lon'', [VInt 2, VInt 7]),
                   (''when'', [VTime (doc_example ! 0), VTime (doc_example ! 1)])],
      f_crs = None, f_geo = False\<rparr>"

definition demo_heap :: "box heap" where
  "demo_heap = (\<lambda>r. demo_table)"

definition demo_session :: "box aggregator" where
  "demo_session =
     (init ''epsg:4326'')\<lparr>max_borders := Some demo_border,
        events_data := Some \<lparr>f_index = [0, 1],
           f_columns = [(''geometry'', [VGeom ((2, 3), (2, 3)), VGeom ((7, 20), (7, 20))]),
                        (''ts'', [VTime (doc_example ! 0), VTime (doc_example ! 1)])],
           f_crs = Some ''epsg:4326'', f_geo = True\<rparr>\<rparr>"




text \<open>Sessions and tables of the small world, before and after a spatial discretization.\<close>

definition demo_borders_only :: "box aggregator" where
  "demo_borders_only = (init ''epsg:4326'')\<lparr>max_borders := Some demo_border\<rparr>"

definition demo_polygon_table :: "box geo_table" where
  "demo_polygon_table =
     \<lparr>cells = [\<lparr>cell_id = 0, cell_geometry = ((0, 0), (5, 10)), cell_neighbors = Some [1],
                 cell_center = Some (0, 0), cell_vars = []\<rparr>,
                \<lparr>cell_id = 1, cell_geometry = ((5, 0), (10, 10)), cell_neighbors = Some [0],
                 cell_center = Some (0, 0), cell_vars = []\<rparr>],
      t_crs = Some ''epsg:4326''\<rparr>"

definition demo_node_table :: "box geo_table" where
  "demo_node_table =
     \<lparr>cells = [new_cell 0 ((0, 0), (5, 10)) None, new_cell 1 ((5, 0), (10, 10)) None],
      t_crs = Some ''epsg:4326''\<rparr>"

definition demo_assigned :: "box frame" where
  "demo_assigned =
     \<lparr>f_index = [0, 1],
      f_columns = [(''geometry'', [VGeom ((2, 3), (2, 3)), VGeom ((7, 20), (7, 20))]),
                   (''ts'', [VTime (doc_example ! 0), VTime (doc_example ! 1)]),
                   (''gdiscr'', [VInt 0, VNA])],
      f_crs = Some ''epsg:4326'', f_geo = True\<rparr>"

text \<open>
  A world where the way back from epsg:29193 moves a point two units down, as a rounding
  reprojection moves it a little; and a session with one event just above the border.
\<close>

definition shifting_engine :: "box engine" where
  "shifting_engine =
     demo_engine\<lparr>to_crs := (\<lambda>src dst g.
        if src = ''epsg:29193''
        then ((fst (fst g), snd (fst g) - 2), (fst (snd g), snd (snd g) - 2))
        else g)\<rparr>"

definition far_session :: "box aggregator" where
  "far_session =
     (init ''epsg:4326'')\<lparr>max_borders := Some demo_border,
        events_data := Some \<lparr>f_index = [0],
           f_columns = [(''geometry'', [VGeom ((5, 11), (5, 11))])],
           f_crs = Some ''epsg:4326'', f_geo = True\<rparr>\<rparr>"

definition far_assigned :: "box frame" where
  "far_assigned =
     \<lparr>f_index = [0],
      f_columns = [(''geometry'', [VGeom ((5, 9), (5, 9))]), (''gdiscr'', [VInt 0])],
      f_crs = Some ''epsg:4326'', f_geo = True\<rparr>"

section \<open>Properties of the time discretization\<close>

lemmas time_defs =
  week_start_def midnight_def to_seconds_def weekday_def epoch_days_def days_from_civil_def
  known_def exact_int_def

lemma astype_int_Inr: "astype_int xs = Inr ys \<Longrightarrow> xs = map Fin ys"
proof (induction xs arbitrary: ys)
  case Nil
  then show ?case by simp
next
  case (Cons x xs)
  then show ?case
    by (cases x) (auto split: sum.splits)
qed

lemma pymod_range: "pymod x m = Fin v \<Longrightarrow> 0 < m \<Longrightarrow> 0 \<le> v \<and> v < m"
  by (cases x) (auto split: if_splits)

lemma assign_bucket_ok:
  assumes "\<forall>v\<in>set idx. bucket_ok k v" and "fst iw < k"
  shows "\<forall>v\<in>set (assign_bucket n iw idx). bucket_ok k v"
proof
  fix v assume "v \<in> set (assign_bucket n iw idx)"
  then obtain a b where ab: "(a, b) \<in> set (zip n idx)"
    and v: "v = (if num_less a (snd iw) \<and> isna b then Fin (int (fst iw)) else b)"
    by (auto simp: assign_bucket_def)
  from ab have "b \<in> set idx" by (rule set_zip_rightD)
  with assms(1) have "bucket_ok k b" by blast
  with v assms(2) show "bucket_ok k v"
    by (auto simp: bucket_ok_def)
qed

lemma fold_assign_bucket_ok:
  "\<forall>v\<in>set idx. bucket_ok k v \<Longrightarrow> \<forall>p\<in>set ps. fst p < k \<Longrightarrow>
   \<forall>v\<in>set (fold (assign_bucket n) ps idx). bucket_ok k v"
proof (induction ps arbitrary: idx)
  case Nil
  then show ?case by simp
next
  case (Cons p ps)
  have "\<forall>v\<in>set (assign_bucket n p idx). bucket_ok k v"
    using Cons.prems by (intro assign_bucket_ok) auto
  then show ?case using Cons by simp
qed

lemma length_cumsum_from: "length (cumsum_from a xs) = length xs"
  by (induction xs arbitrary: a) auto

lemma enumerate_fst: "p \<in> set (enumerate_list (cumsum ws)) \<Longrightarrow> fst p < length ws"
proof -
  assume "p \<in> set (enumerate_list (cumsum ws))"
  then have "(fst p, snd p) \<in> set (zip [0..<length (cumsum ws)] (cumsum ws))"
    by (simp add: enumerate_list_def)
  then have "fst p \<in> set [0..<length (cumsum ws)]" by (rule set_zip_leftD)
  then show ?thesis by (simp add: cumsum_def length_cumsum_from)
qed

lemma length_assign_bucket:
  "length n = length idx \<Longrightarrow> length (assign_bucket n p idx) = length idx"
  by (simp add: assign_bucket_def)

lemma length_fold_assign:
  "length n = length idx \<Longrightarrow> length (fold (assign_bucket n) ps idx) = length idx"
  by (induction ps arbitrary: idx) (auto simp: length_assign_bucket)

lemma apply_time_frequency_length:
  "apply_time_frequency ts u k = Inr r \<Longrightarrow> length r = length ts"
  by (auto simp: apply_time_frequency_def known_def Let_def split: if_splits option.splits)

lemma uniform_range:
  assumes "calculate_sazonality ts u (WInt w) f = Inr r" and "0 < f div w"
  shows "length r = length ts \<and> (\<forall>v\<in>set r. 0 \<le> v \<and> v < f div w)"
proof -
  from assms(1) obtain un where un: "apply_time_frequency ts u 1 = Inr un"
    and r: "astype_int (map (\<lambda>u. pymod (floordiv u w) (f div w)) un) = Inr r"
    by (auto simp: calculate_sazonality_def split: sum.splits if_splits)
  from r have eq: "map (\<lambda>u. pymod (floordiv u w) (f div w)) un = map Fin r"
    by (rule astype_int_Inr)
  then have "length r = length un" by (metis length_map)
  moreover have "\<forall>v\<in>set r. 0 \<le> v \<and> v < f div w"
  proof
    fix v assume "v \<in> set r"
    then have "Fin v \<in> set (map (\<lambda>u. pymod (floordiv u w) (f div w)) un)"
      unfolding eq by simp
    then obtain x where "pymod x (f div w) = Fin v" by auto
    then show "0 \<le> v \<and> v < f div w" using assms(2) by (rule pymod_range)
  qed
  ultimately show ?thesis using apply_time_frequency_length[OF un] by simp
qed

lemma variable_range:
  assumes "calculate_sazonality ts u (WList ws) f = Inr r"
  shows "length r = length ts \<and> (\<forall>v\<in>set r. 0 \<le> v \<and> v < int (length ws))"
proof -
  from assms obtain un where un: "apply_time_frequency ts u 1 = Inr un"
    and r: "astype_int (fold (assign_bucket (map (\<lambda>u. pymod u f) un))
                (enumerate_list (cumsum ws)) (map (\<lambda>_. NaN) (map (\<lambda>u. pymod u f) un))) = Inr r"
    by (auto simp: calculate_sazonality_def Let_def split: sum.splits if_splits)
  let ?n = "map (\<lambda>u. pymod u f) un"
  let ?res = "fold (assign_bucket ?n) (enumerate_list (cumsum ws)) (map (\<lambda>_. NaN) ?n)"
  from r have eq: "?res = map Fin r" by (rule astype_int_Inr)
  have len: "length ?res = length un"
    by (subst length_fold_assign) simp_all
  have ok: "\<forall>v\<in>set ?res. bucket_ok (length ws) v"
    by (rule fold_assign_bucket_ok) (auto simp: bucket_ok_def enumerate_fst)
  have "length r = length un" using len unfolding eq by simp
  moreover have "\<forall>v\<in>set r. 0 \<le> v \<and> v < int (length ws)"
  proof
    fix v assume "v \<in> set r"
    then have "Fin v \<in> set ?res" unfolding eq by simp
    with ok have "bucket_ok (length ws) (Fin v)" by blast
    then show "0 \<le> v \<and> v < int (length ws)" by (auto simp: bucket_ok_def)
  qed
  ultimately show ?thesis using apply_time_frequency_length[OF un] by simp
qed

lemma doc_example_uniform:
  "calculate_sazonality doc_example ''D'' (WInt 1) 7 = Inr [0, 3, 2, 0]"
  by (simp add: calculate_sazonality_def apply_time_frequency_def doc_example_def time_defs
      minus_min_def)

lemma doc_example_variable:
  "calculate_sazonality doc_example ''D'' (WList [2, 3, 2]) 7 = Inr [0, 1, 1, 0]"
  by (simp add: calculate_sazonality_def apply_time_frequency_def doc_example_def time_defs
      minus_min_def cumsum_def enumerate_list_def assign_bucket_def upt_conv_Cons)

text \<open>
  The series are float64 in the code. On whole numbers of magnitude at most \<open>2^53\<close>
  floor division and remainder are exact there, and the model computes them; beyond, the
  code rounds and the model gives \<open>Inexact\<close>, so that it returns a series only where it
  follows the arithmetic of the code: window, \<open>frequency // window\<close>, frequency and the
  thresholds are at most \<open>2^53\<close> in magnitude. On window -1 and frequency \<open>-2^60\<close>,
  where float64 rounds the remainder up to \<open>frequency // window\<close> itself, it returns
  nothing.
\<close>

lemma pymod_Fin_exact: "pymod x m = Fin v \<Longrightarrow> exact_int m \<and> (\<exists>a. x = Fin a \<and> exact_int a)"
  by (cases x) (auto split: if_splits)

lemma floordiv_Fin_exact: "floordiv x w = Fin y \<Longrightarrow> w \<noteq> 0 \<and> exact_int w"
  by (cases x) (auto split: if_splits)

lemma uniform_exact_range:
  assumes "calculate_sazonality ts u (WInt w) f = Inr r" and "ts \<noteq> []"
  shows "exact_int w \<and> exact_int (f div w)"
proof -
  from assms(1) obtain un where un: "apply_time_frequency ts u 1 = Inr un"
    and r: "astype_int (map (\<lambda>u. pymod (floordiv u w) (f div w)) un) = Inr r"
    by (auto simp: calculate_sazonality_def split: sum.splits if_splits)
  from apply_time_frequency_length[OF un] assms(2) obtain x xs where x: "un = x # xs"
    by (cases un) auto
  from astype_int_Inr[OF r] x obtain v where "pymod (floordiv x w) (f div w) = Fin v"
    by (cases r) auto
  from pymod_Fin_exact[OF this] obtain a where "exact_int (f div w)" "floordiv x w = Fin a"
    by blast
  with floordiv_Fin_exact show ?thesis by blast
qed

lemma variable_exact_range:
  "calculate_sazonality ts u (WList ws) f = Inr r \<Longrightarrow>
   exact_int f \<and> list_all exact_int (cumsum ws)"
  by (auto simp: calculate_sazonality_def split: sum.splits if_splits)

lemma rounding_example_outside_model:
  "calculate_sazonality (take 2 doc_example) ''D'' (WInt (- 1)) (- (2 ^ 60)) =
   Inl (OutsideModel ''float64'')"
  by (simp add: calculate_sazonality_def apply_time_frequency_def doc_example_def time_defs
      minus_min_def)

text \<open>
  C6, as the code has it. Let window, \<open>frequency // window\<close>, frequency and the
  cumulative thresholds be at most \<open>2^53\<close> in magnitude, where float64 arithmetic on
  whole numbers is exact. Whenever \<open>calculate_sazonality\<close> returns a series, it has one
  integer per timestamp; in variable mode (a list window) every value lies in
  \<open>[0, len(window))\<close>; in uniform mode (an integer window) every value lies in
  \<open>[0, frequency // window)\<close> provided that quotient is positive, which is the case for
  a positive window and a positive multiple of it as frequency.
\<close>

theorem calculate_sazonality_range:
  "(exact_int w \<longrightarrow> exact_int (f div w) \<longrightarrow>
    calculate_sazonality ts u (WInt w) f = Inr r \<longrightarrow> 0 < f div w \<longrightarrow>
      length r = length ts \<and> (\<forall>v\<in>set r. 0 \<le> v \<and> v < f div w)) \<and>
   (exact_int f \<longrightarrow> list_all exact_int (cumsum ws) \<longrightarrow>
    calculate_sazonality ts u (WList ws) f = Inr r' \<longrightarrow>
      length r' = length ts \<and> (\<forall>v\<in>set r'. 0 \<le> v \<and> v < int (length ws)))"
  using uniform_range variable_range by blast

theorem calculate_sazonality_range_witness:
  "exact_int 1 \<and> exact_int (7 div 1) \<and>
   calculate_sazonality doc_example ''D'' (WInt 1) 7 = Inr [0, 3, 2, 0] \<and> (0::int) < 7 div 1 \<and>
   exact_int 7 \<and> list_all exact_int (cumsum [2, 3, 2]) \<and>
   calculate_sazonality doc_example ''D'' (WList [2, 3, 2]) 7 = Inr [0, 1, 1, 0] \<and>
   length [0, 3, 2, 0 :: int] = length doc_example \<and>
   set [0, 3, 2, 0 :: int] \<subseteq> {0 ..< 7 div 1} \<and>
   length [0, 1, 1, 0 :: int] = length doc_example \<and>
   set [0, 1, 1, 0 :: int] \<subseteq> {0 ..< int (length [2, 3, 2 :: int])}"
  using calculate_sazonality_range
          [of 1 7 doc_example "''D''" "[0, 3, 2, 0]" "[2, 3, 2]" "[0, 1, 1, 0]"]
        doc_example_uniform doc_example_variable
  by (simp add: exact_int_def cumsum_def)

text \<open>
  C6, as the claim states it, fails on an accepted input: with window 1 and frequency -7
  (a multiple of the window, so every check passes) the second index is negative.
\<close>

theorem negative_frequency_counterexample:
  "calculate_sazonality (take 2 doc_example) ''D'' (WInt 1) (- 7) = Inr [0, - 4]"
  by (simp add: calculate_sazonality_def apply_time_frequency_def doc_example_def time_defs
      minus_min_def)

lemma week_start_monday:
  "week_start m mod 86400 = 0 \<and> (week_start m div 86400 + 3) mod 7 = 0 \<and>
   week_start m \<le> to_seconds (midnight m) \<and> to_seconds (midnight m) < week_start m + 7 * 86400"
proof -
  define d where "d = epoch_days (midnight m)"
  have ts: "to_seconds (midnight m) = d * 86400"
    by (simp add: to_seconds_def d_def midnight_def)
  have ws: "week_start m = (d - (d + 3) mod 7) * 86400"
    by (simp add: week_start_def ts weekday_def d_def algebra_simps)
  have m1: "0 \<le> (d + 3) mod 7" and m2: "(d + 3) mod 7 < 7" by simp_all
  have "(d - (d + 3) mod 7 + 3) mod 7 = 0"
    by presburger
  then show ?thesis using m1 m2 unfolding ws ts by simp
qed

lemma week_example_eval:
  "apply_time_frequency doc_example ''W'' 1 = Inr [Fin 0, Fin 1, Fin 2, Fin 52]"
  by (simp add: apply_time_frequency_def doc_example_def time_defs)

lemma week_example_base:
  "ts_min doc_example = Some (doc_example ! 0) \<and>
   week_start (doc_example ! 0) =
     to_seconds \<lparr>year = 2021, month = 12, day = 27, hour = 0, minute = 0, second = 0\<rparr>"
  by (simp add: doc_example_def time_defs)

text \<open>
  C7. On the four timestamps of the docstring, unit week and window size 1, the window index
  is 0, 1, 2, 52. The weeks are counted from \<open>week_start\<close> of the minimum timestamp, here
  Monday 2021-12-27 00:00:00; for every timestamp \<open>week_start\<close> is a midnight, falls on a
  Monday, and is the last such Monday not after the timestamp's day.
\<close>

theorem week_index_example:
  "apply_time_frequency doc_example ''W'' 1 = Inr [Fin 0, Fin 1, Fin 2, Fin 52] \<and>
   ts_min doc_example = Some (doc_example ! 0) \<and>
   week_start (doc_example ! 0) =
     to_seconds \<lparr>year = 2021, month = 12, day = 27, hour = 0, minute = 0, second = 0\<rparr> \<and>
   (\<forall>m. week_start m mod 86400 = 0 \<and> (week_start m div 86400 + 3) mod 7 = 0 \<and>
        week_start m \<le> to_seconds (midnight m) \<and>
        to_seconds (midnight m) < week_start m + 7 * 86400)"
  using week_example_eval week_example_base week_start_monday by blast

text \<open>
  C10. For a unit string outside Y, M, W, D, H, m, s no branch binds \<open>w\<close>, and the final
  \<open>return w // window_size\<close> raises UnboundLocalError, whatever the timestamps are.
\<close>

theorem unsupported_unit_raises:
  "window \<notin> {''Y'', ''M'', ''W'', ''D'', ''H'', ''m'', ''s''} \<Longrightarrow>
   apply_time_frequency ts window window_size = Inl (UnboundLocalError ''w'')"
  by (simp add: apply_time_frequency_def)

theorem unsupported_unit_raises_witness:
  "''S'' \<notin> {''Y'', ''M'', ''W'', ''D'', ''H'', ''m'', ''s''} \<and>
   apply_time_frequency doc_example ''S'' 1 = Inl (UnboundLocalError ''w'')"
  using unsupported_unit_raises [of "''S''" doc_example 1] by simp

section \<open>Properties of the aggregator\<close>


lemma map_of_set_assoc_same: "map_of (set_assoc k v xs) k = Some v"
  by (induction xs) auto

lemma map_of_set_assoc_other: "k' \<noteq> k \<Longrightarrow> map_of (set_assoc k v xs) k' = map_of xs k'"
  by (induction xs) auto

lemma get_col_set_col_same: "get_col (set_col c vs f) c = Some vs"
  by (simp add: get_col_def set_col_def map_of_set_assoc_same)

lemma get_col_set_col_other: "c' \<noteq> c \<Longrightarrow> get_col (set_col c vs f) c' = get_col f c'"
  by (simp add: get_col_def set_col_def map_of_set_assoc_other)

lemma events_select_heap: "fst (state_of (events_select heap self gdf fc sc)) = heap"
  by (simp add: events_select_def Let_def split: sum.splits)

lemma events_finish_heap: "fst (state_of (events_finish eng heap self gdf dc fc fmt)) = heap"
  by (simp add: events_finish_def Let_def events_select_heap split: option.splits)

lemma select_cols_mem:
  "select_cols names f = Inr cols \<Longrightarrow> c \<in> set names \<Longrightarrow>
   \<exists>vs. map_of cols c = Some vs \<and> get_col f c = Some vs"
proof (induction names arbitrary: cols)
  case Nil
  then show ?case by simp
next
  case (Cons n ns)
  from Cons.prems(1) obtain vs rest where n: "get_col f n = Some vs"
    and rest: "select_cols ns f = Inr rest" and cols: "cols = (n, vs) # rest"
    by (auto split: option.splits sum.splits)
  show ?case
  proof (cases "c = n")
    case True
    with n cols show ?thesis by simp
  next
    case False
    with Cons.prems(2) have "c \<in> set ns" by simp
    from Cons.IH[OF rest this] False cols show ?thesis by simp
  qed
qed

lemma events_select_geometry:
  assumes "events_select heap self gdf fc sc = Ok (heap', self')" and "''geometry'' \<in> set sc"
  shows "\<exists>ev vs. events_data self' = Some ev \<and> get_col ev ''geometry'' = Some vs"
proof -
  from assms(1) obtain cols where sel: "select_cols (fc @ sc) gdf = Inr cols"
    and self': "self' = self\<lparr>events_features := events_features self @ fc,
                            events_data := Some (gdf\<lparr>f_columns := cols\<rparr>)\<rparr>"
    by (auto simp: events_select_def Let_def split: sum.splits)
  from select_cols_mem[OF sel, of "''geometry''"] assms(2)
  obtain vs where "map_of cols ''geometry'' = Some vs" by auto
  with self' show ?thesis by (simp add: get_col_def)
qed

lemma events_finish_geometry:
  assumes "events_finish eng heap self gdf dc fc fmt = Ok (heap', self')"
  shows "\<exists>ev vs. events_data self' = Some ev \<and> get_col ev ''geometry'' = Some vs"
proof (cases dc)
  case None
  with assms have "events_select heap self gdf fc [''geometry''] = Ok (heap', self')"
    by (simp add: events_finish_def)
  then show ?thesis by (rule events_select_geometry) simp
next
  case (Some d)
  with assms obtain s g where "events_select heap s g fc [''geometry'', ''ts''] = Ok (heap', self')"
    by (auto simp: events_finish_def Let_def split: option.splits if_splits)
  then show ?thesis by (rule events_select_geometry) simp
qed

text \<open>
  C9. When \<open>add_events_data\<close> gets a plain DataFrame that has the longitude and
  latitude columns, the object the caller passed is itself changed: whatever the call does
  afterwards (return or raise), the caller's table equals its old value with a
  \<open>geometry\<close> column of the points built from longitude and latitude, and no other
  object of the heap changes. On return the session's own table has a \<open>geometry\<close>
  column too.
\<close>

theorem add_events_data_mutates_argument:
  assumes "\<not> f_geo (heap r)"
    and "get_col (heap r) lon_col = Some lons"
    and "get_col (heap r) lat_col = Some lats"
  shows "fst (state_of (add_events_data eng (heap, self) r dc lat_col lon_col fc fmt)) =
           heap(r := set_col ''geometry'' (map2 (points_from_xy eng) lons lats) (heap r)) \<and>
         get_col (fst (state_of (add_events_data eng (heap, self) r dc lat_col lon_col fc fmt)) r)
           ''geometry'' = Some (map2 (points_from_xy eng) lons lats) \<and>
         (\<forall>heap' self'. add_events_data eng (heap, self) r dc lat_col lon_col fc fmt = Ok (heap', self')
            \<longrightarrow> (\<exists>ev vs. events_data self' = Some ev \<and> get_col ev ''geometry'' = Some vs))"
proof -
  let ?arg' = "set_col ''geometry'' (map2 (points_from_xy eng) lons lats) (heap r)"
  let ?gdf = "frame_to_crs eng ''epsg:4326'' (crs self) (?arg'\<lparr>f_geo := True, f_crs := Some ''epsg:4326''\<rparr>)"
  have eq: "add_events_data eng (heap, self) r dc lat_col lon_col fc fmt =
        events_finish eng (heap(r := ?arg')) (self\<lparr>events_data := Some ?gdf\<rparr>) ?gdf dc fc fmt"
    using assms by (simp add: add_events_data_def Let_def)
  show ?thesis
    unfolding eq
    by (auto simp: events_finish_heap get_col_set_col_same dest: events_finish_geometry)
qed

lemma demo_add_events:
  "add_events_data demo_engine (demo_heap, init ''epsg:4326'') 0 (Some ''when'') ''lat'' ''lon'' [] None =
   Ok (demo_heap(0 := set_col ''geometry'' [VGeom ((2, 3), (2, 3)), VGeom ((7, 20), (7, 20))] demo_table),
       demo_session\<lparr>max_borders := None\<rparr>)"
  by (simp add: add_events_data_def Let_def demo_heap_def demo_table_def demo_engine_def
      get_col_def set_col_def frame_to_crs_def events_finish_def events_select_def
      take_rows_def argsort_ts_def init_def demo_session_def doc_example_def
      to_seconds_def epoch_days_def days_from_civil_def upt_conv_Cons)

text \<open>
  C4 on the code. On a fresh session (no events data), \<open>add_max_borders\<close> with method
  rectangle or convex does not raise the message that asks for \<open>add_events_data\<close>:
  the guard \<open>hasattr(self, "events_data")\<close> is always true, and the call fails on the
  attribute read \<open>self.events_data.geometry\<close> of \<open>None\<close>.
\<close>

theorem add_max_borders_without_events:
  "add_max_borders eng (init c) None (Some ''rectangle'') =
     Raised (AttributeError (msg_none_has_no ''geometry'')) (init c) \<and>
   add_max_borders eng (init c) None (Some ''convex'') =
     Raised (AttributeError (msg_none_has_no ''geometry'')) (init c) \<and>
   msg_none_has_no ''geometry'' \<noteq> msg_inform_events"
  by (simp add: add_max_borders_def border_from_events_def hasattr_events_data_def init_def
      msg_none_has_no_def msg_inform_events_def)

text \<open>
  What the renumbering keeps: a reference survives exactly when its raw id has a row and
  that row's new id is not 0; every id that remains is the new id of a row, and never 0.
\<close>

lemma corr_index_dict_range:
  assumes "corr_index_dict cs n = Some k"
  shows "k < length cs \<and> cell_id (cs ! k) = n"
proof -
  from assms have "(n, k) \<in> set (zip (map cell_id cs) [0..<length cs])"
    by (auto simp: corr_index_dict_def dest: map_of_SomeD)
  then obtain i where "i < length cs" "map cell_id cs ! i = n" "[0..<length cs] ! i = k"
    by (auto simp: in_set_zip)
  then show ?thesis by simp
qed

lemma remap_neighbors_set:
  "set (remap_neighbors d ns) = {int k | n k. n \<in> set ns \<and> d n = Some k \<and> k \<noteq> 0}"
proof (induction ns)
  case Nil
  then show ?case by simp
next
  case (Cons n ns)
  show ?case
  proof (cases "d n")
    case None
    with Cons show ?thesis by auto
  next
    case (Some k)
    with Cons show ?thesis by (cases "k = 0") auto
  qed
qed

lemma reindex_rows_neighbors:
  "reindex_rows d k cs = Inr cs' \<Longrightarrow> c \<in> set cs' \<Longrightarrow>
   \<exists>c0\<in>set cs. \<exists>nl. cell_neighbors c0 = Some nl \<and>
      cell_neighbors c = Some (remap_neighbors d nl)"
proof (induction cs arbitrary: k cs')
  case Nil
  then show ?case by simp
next
  case (Cons x xs)
  from Cons.prems(1) obtain nl rest where nl: "cell_neighbors x = Some nl"
    and rest: "reindex_rows d (k + 1) xs = Inr rest"
    and cs': "cs' = x\<lparr>cell_id := int k, cell_neighbors := Some (remap_neighbors d nl)\<rparr> # rest"
    by (auto split: option.splits sum.splits)
  show ?case
  proof (cases "c \<in> set rest")
    case True
    from Cons.IH[OF rest True] show ?thesis by auto
  next
    case False
    with Cons.prems(2) cs' nl show ?thesis by auto
  qed
qed

lemma reindex_rows_length: "reindex_rows d k cs = Inr cs' \<Longrightarrow> length cs' = length cs"
  by (induction cs arbitrary: k cs') (auto split: option.splits sum.splits)

lemma reindexed_neighbors_valid:
  assumes "reindex_neighbors cs = Inr cs'" and "c \<in> set cs'"
    and "cell_neighbors c = Some nl" and "m \<in> set nl"
  shows "0 < m \<and> m < int (length cs')"
proof -
  from assms(1) have r: "reindex_rows (corr_index_dict cs) 0 cs = Inr cs'"
    by (simp add: reindex_neighbors_def)
  from reindex_rows_neighbors[OF r assms(2)] assms(3) obtain nl0 where
    "nl = remap_neighbors (corr_index_dict cs) nl0" by auto
  with assms(4) obtain n k where "m = int k" "corr_index_dict cs n = Some k" "k \<noteq> 0"
    by (auto simp: remap_neighbors_set)
  moreover from this corr_index_dict_range have "k < length cs" by blast
  moreover from r have "length cs' = length cs" by (rule reindex_rows_length)
  ultimately show ?thesis by simp
qed

text \<open>
  C1 on the code. Two raw cells 5 and 7 survive clipping, 5 lists 7 as neighbour and 7 lists
  5 and the vanished cell 9. After renumbering, cell 0 (raw 5) keeps its neighbour 1, but
  cell 1 (raw 7) has lost its reference to the surviving raw cell 5 along with the one to
  9: the new id of raw 5 is 0, and \<open>if corr_index_dict.get(n):\<close> is false on 0.
\<close>

theorem reindex_drops_reference_to_first_cell:
  "reindex_neighbors
     [new_cell 5 ((0, 0), (1, 1)) (Some [7]), new_cell 7 ((1, 0), (2 :: int, 1 :: int)) (Some [5, 9])] =
   Inr [new_cell 0 ((0, 0), (1, 1)) (Some [1]), new_cell 1 ((1, 0), (2, 1)) (Some [])]"
  by (simp add: reindex_neighbors_def corr_index_dict_def new_cell_def upt_conv_Cons)

lemma check_window_sum_differs:
  "sum_list ws \<noteq> f \<Longrightarrow> f \<noteq> 0 \<Longrightarrow>
   check_window (WList ws) f = Some (ValueError msg_frequency_sum)"
  by (simp add: check_window_def)

lemma check_window_zero_frequency: "check_window (WList ws) 0 = None"
  by (simp add: check_window_def)

lemma t_col_name_1: "t_col_name (Suc 0) = ''tdiscr_1''"
  by code_simp

text \<open>
  C2 on the code. With the list window \<open>[1, 2]\<close> (sum 3) and frequency 0 the check
  \<open>sum(window) != frequency != 0\<close> is false, no ValueError is raised by it, the new
  column name is appended to \<open>time_indexes\<close> and the seasonality helper is called
  (where it fails on the division by the zero frequency).
\<close>

theorem zero_frequency_skips_sum_check:
  "sum_list [1, 2] \<noteq> (0 :: int) \<and>
   add_time_discretization demo_engine demo_session (Unit ''D'') (WList [1, 2]) 0 =
     Raised (CollaboratorError ''calculate_seasonality failed'')
       (demo_session\<lparr>time_indexes := [''tdiscr_1'']\<rparr>)"
  by (simp add: add_time_discretization_def demo_session_def init_def check_window_def
      column_names_def new_t_col.simps[of _ "Suc 0"] t_col_name_1 store_time_column_def
      get_col_def demo_engine_def demo_seasonality_def calculate_sazonality_def
      apply_time_frequency_def doc_example_def time_defs minus_min_def
      cumsum_def enumerate_list_def assign_bucket_def upt_conv_Cons)


theorem add_events_data_mutates_argument_witness:
  "\<not> f_geo (demo_heap 0) \<and>
   get_col (demo_heap 0) ''lon'' = Some [VInt 2, VInt 7] \<and>
   get_col (demo_heap 0) ''lat'' = Some [VInt 3, VInt 20] \<and>
   add_events_data demo_engine (demo_heap, init ''epsg:4326'') 0 (Some ''when'') ''lat'' ''lon'' [] None =
     Ok (demo_heap(0 := set_col ''geometry'' [VGeom ((2, 3), (2, 3)), VGeom ((7, 20), (7, 20))] demo_table),
         demo_session\<lparr>max_borders := None\<rparr>) \<and>
   get_col (fst (state_of (add_events_data demo_engine (demo_heap, init ''epsg:4326'') 0
                             (Some ''when'') ''lat'' ''lon'' [] None)) 0) ''geometry'' =
     Some [VGeom ((2, 3), (2, 3)), VGeom ((7, 20), (7, 20))] \<and>
   get_col (demo_heap 0) ''geometry'' = None \<and>
   (\<exists>ev vs. events_data (demo_session\<lparr>max_borders := None\<rparr>) = Some ev \<and>
      get_col ev ''geometry'' = Some vs)"
proof -
  have h1: "\<not> f_geo (demo_heap 0)" by (simp add: demo_heap_def demo_table_def)
  have h2: "get_col (demo_heap 0) ''lon'' = Some [VInt 2, VInt 7]"
    by (simp add: demo_heap_def demo_table_def get_col_def)
  have h3: "get_col (demo_heap 0) ''lat'' = Some [VInt 3, VInt 20]"
    by (simp add: demo_heap_def demo_table_def get_col_def)
  have h4: "get_col (demo_heap 0) ''geometry'' = None"
    by (simp add: demo_heap_def demo_table_def get_col_def)
  have pts: "map2 (points_from_xy demo_engine) [VInt 2, VInt 7] [VInt 3, VInt 20] =
        [VGeom ((2, 3), (2, 3)), VGeom ((7, 20), (7, 20))]"
    by (simp add: demo_engine_def)
  note inst = add_events_data_mutates_argument
      [where heap = demo_heap and r = 0 and lon_col = "''lon''" and lat_col = "''lat''"
         and lons = "[VInt 2, VInt 7]" and lats = "[VInt 3, VInt 20]" and eng = demo_engine
         and self = "init ''epsg:4326''" and dc = "Some ''when''" and fc = "[]" and fmt = None]
  from inst [OF h1 h2 h3]
  show ?thesis
    using h1 h2 h3 h4 demo_add_events unfolding pts by (simp add: demo_heap_def)
qed

subsection \<open>Cell ids\<close>

lemma assign_events_table:
  "assign_events eng s t = Ok s' \<Longrightarrow> geo_discretization s' = geo_discretization s"
  by (auto simp: assign_events_def Let_def split: option.splits)

lemma finish_discretization_ids:
  assumes "finish_discretization eng s t = Ok s'"
  shows "\<exists>t'. geo_discretization s' = Some t' \<and> map cell_id (cells t') = map cell_id (cells t)"
proof -
  from assms obtain c where c: "t_crs t = Some c"
    by (auto simp: finish_discretization_def split: option.splits)
  define t' where "t' = t\<lparr>cells := map (\<lambda>x. x\<lparr>cell_center :=
       Some (geo_centroid eng (to_crs eng c ''epsg:4088'' (cell_geometry x)))\<rparr>) (cells t)\<rparr>"
  from assms c have "assign_events eng (s\<lparr>geo_discretization := Some t'\<rparr>) t' = Ok s'"
    by (simp add: finish_discretization_def Let_def t'_def)
  from assign_events_table[OF this] have "geo_discretization s' = Some t'" by simp
  moreover have "map cell_id (cells t') = map cell_id (cells t)"
    by (simp add: t'_def o_def)
  ultimately show ?thesis by blast
qed

lemma reindex_rows_ids:
  "reindex_rows d k cs = Inr cs' \<Longrightarrow>
   length cs' = length cs \<and> map cell_id cs' = map int [k..<k + length cs]"
proof (induction cs arbitrary: k cs')
  case Nil
  then show ?case by simp
next
  case (Cons c cs)
  from Cons.prems obtain nl rest where rest: "reindex_rows d (k + 1) cs = Inr rest"
    and cs': "cs' = c\<lparr>cell_id := int k, cell_neighbors := Some (remap_neighbors d nl)\<rparr> # rest"
    by (auto split: option.splits sum.splits)
  from Cons.IH[OF rest] have len: "length rest = length cs"
    and ids: "map cell_id rest = map int [Suc k..<Suc k + length cs]" by simp_all
  have "[k..<k + length (c # cs)] = k # [Suc k..<Suc k + length cs]"
    by (subst upt_rec) simp
  then show ?case unfolding cs' using len ids by simp
qed

lemma rectangle_discretization_ids:
  "rectangle_discretization eng mb rx ry = Inr tbl \<Longrightarrow>
   map cell_id (cells tbl) = map int [0..<length (cells tbl)]"
  by (auto simp: rectangle_discretization_def new_cell_def o_def split: option.splits)

lemma custom_table_ids:
  "map cell_id (cells (custom_table eng s cd)) =
   map int [0..<length (cells (custom_table eng s cd))]"
proof -
  let ?gs = "l_geometry cd"
  let ?z = "zip [0..<length ?gs] ?gs"
  have e2: "map (\<lambda>x. int (fst x)) ?z = map int [0..<length ?gs]"
    by (rule nth_equalityI) simp_all
  show ?thesis
    by (simp add: custom_table_def enumerate_list_def Let_def o_def new_cell_def
        case_prod_beta e2 split: option.splits)
qed

lemma compute_neighbors_ids: "map cell_id (compute_neighbors eng cs) = map cell_id cs"
  by (simp add: compute_neighbors_def o_def)

lemma length_compute_neighbors: "length (compute_neighbors eng cs) = length cs"
  by (simp add: compute_neighbors_def)

lemma null_outside_table:
  "null_outside eng s mb ev = Ok s' \<Longrightarrow> geo_discretization s' = geo_discretization s"
  by (auto simp: null_outside_def split: option.splits list.splits if_splits)

lemma graph_assignment_table:
  "graph_assignment eng s mb t = Ok s' \<Longrightarrow> geo_discretization s' = geo_discretization s"
  by (auto simp: graph_assignment_def Let_def split: option.splits if_splits
           dest!: null_outside_table)

lemma hexagonal_ids:
  assumes "hexagonal eng s mb h = Ok s'"
  shows "\<exists>t. geo_discretization s' = Some t \<and> map cell_id (cells t) = map int [0..<length (cells t)]"
proof -
  from assms obtain raw limited cs s2 where
    re: "reindex_neighbors (merge_right (cells raw) limited) = Inr cs"
    and fin: "finish_discretization eng s2 (raw\<lparr>cells := cs\<rparr>) = Ok s'"
    by (auto simp: hexagonal_def Let_def split: sum.splits)
  from re have "map cell_id cs = map int [0..<length cs]"
    using reindex_rows_ids[of _ 0 "merge_right (cells raw) limited" cs]
    by (simp add: reindex_neighbors_def)
  moreover from finish_discretization_ids[OF fin] obtain t where
    "geo_discretization s' = Some t" "map cell_id (cells t) = map cell_id cs" by auto
  ultimately show ?thesis by (metis length_map)
qed

text \<open>
  C5. Whenever \<open>add_geo_discretization\<close> returns, for any of the four strategies, the
  table it leaves in the session has the ids 0, 1, ..., N-1 in row order, N being the number
  of rows (so they are unique, contiguous and zero-based). For the hexagonal strategy this
  is the renumbering after clipping; for custom polygons and graph nodes it is
  \<open>range(len(custom_data))\<close>; for the rectangular strategy it is the row-major numbering
  of the grid generator as the spec describes it.
\<close>

theorem discretization_ids_contiguous:
  assumes "add_geo_discretization eng self discr_type h rx ry cd = Ok self'"
  shows "\<exists>t. geo_discretization self' = Some t \<and>
             map cell_id (cells t) = map int [0..<length (cells t)]"
proof -
  from assms obtain mb where mb: "max_borders self = Some mb"
    by (auto simp: add_geo_discretization_def split: option.splits)
  consider (R) "discr_type = ''R''" | (H) "discr_type = ''H''" | (C) "discr_type = ''C''"
    | (G) "discr_type = ''G''"
    using assms mb by (auto simp: add_geo_discretization_def split: if_splits)
  then show ?thesis
  proof cases
    case R
    with assms mb obtain tbl s1 where tbl: "rectangle_discretization eng mb rx ry = Inr tbl"
      and fin: "finish_discretization eng s1 tbl = Ok self'"
      by (auto simp: add_geo_discretization_def split: sum.splits)
    from finish_discretization_ids[OF fin] rectangle_discretization_ids[OF tbl]
    show ?thesis by (metis length_map)
  next
    case H
    with assms mb have "hexagonal eng self mb h = Ok self'"
      by (simp add: add_geo_discretization_def)
    then show ?thesis by (rule hexagonal_ids)
  next
    case C
    with assms mb obtain c s1 where
      fin: "finish_discretization eng s1
              ((custom_table eng self c)\<lparr>cells := compute_neighbors eng (cells (custom_table eng self c))\<rparr>)
            = Ok self'"
      by (auto simp: add_geo_discretization_def Let_def split: option.splits)
    from finish_discretization_ids[OF fin] obtain t where
      t: "geo_discretization self' = Some t"
      and ids: "map cell_id (cells t) = map cell_id (cells (custom_table eng self c))"
      by (auto simp: compute_neighbors_ids)
    from ids have "length (cells t) = length (cells (custom_table eng self c))"
      by (metis length_map)
    with t ids custom_table_ids[of eng self c] show ?thesis by simp
  next
    case G
    with assms mb obtain c where
      g: "graph_assignment eng (self\<lparr>geo_discretization := Some (custom_table eng self c)\<rparr>) mb
            (custom_table eng self c) = Ok self'"
      by (auto simp: add_geo_discretization_def Let_def split: option.splits)
    from graph_assignment_table[OF g] custom_table_ids[of eng self c]
    show ?thesis by simp
  qed
qed

subsection \<open>Graph nodes\<close>

lemma map_of_map_snd:
  "map_of (map (\<lambda>kv. (fst kv, g (snd kv))) xs) k = map_option g (map_of xs k)"
  by (induction xs) auto

lemma take_rows_col_length:
  "get_col (take_rows ps f) c = Some vs \<Longrightarrow> length vs = length ps"
proof -
  assume "get_col (take_rows ps f) c = Some vs"
  then have "map_option (\<lambda>col. map (\<lambda>p. col ! p) ps) (map_of (f_columns f) c) = Some vs"
    by (simp add: get_col_def take_rows_def
        map_of_map_snd[where g = "\<lambda>col. map (\<lambda>p. col ! p) ps"])
  then show ?thesis by auto
qed

lemma null_outside_result:
  assumes "null_outside eng s mb ev = Ok s'"
  shows "\<exists>b rest gs gd. l_geometry mb = b # rest \<and> get_col ev ''geometry'' = Some gs \<and>
           get_col ev ''gdiscr'' = Some gd \<and>
           events_data s' = Some (set_col ''gdiscr''
             (map2 (\<lambda>g d. if outside eng b g then VNA else d) gs gd) ev)"
  using assms
  by (auto simp: null_outside_def split: option.splits list.splits if_splits)

lemma map_of_filter_other:
  "c' \<noteq> c \<Longrightarrow> map_of (filter (\<lambda>kv. fst kv \<noteq> c) xs) c' = map_of xs c'"
  by (induction xs) auto

lemma get_col_drop_col_other: "c' \<noteq> c \<Longrightarrow> get_col (drop_col c f) c' = get_col f c'"
  by (simp add: get_col_def drop_col_def map_of_filter_other)

lemma get_col_take_rows:
  "get_col (take_rows ps f) c = map_option (\<lambda>col. map (\<lambda>p. col ! p) ps) (get_col f c)"
  by (simp add: get_col_def take_rows_def
      map_of_map_snd[where g = "\<lambda>col. map (\<lambda>p. col ! p) ps"])

lemma first_positions_bound: "p \<in> set (first_positions ls) \<Longrightarrow> p < length ls"
  by (simp add: first_positions_def)

lemma length_join_ids: "length (join_ids ms) = sum_list (map (\<lambda>m. max 1 (length m)) ms)"
proof (induction ms)
  case Nil
  then show ?case by (simp add: join_ids_def)
next
  case (Cons m ms)
  have "length (if m = [] then [VNA] else map VInt m) = max 1 (length m)"
    by (cases m) simp_all
  with Cons show ?case by (simp add: join_ids_def)
qed

lemma length_join_positions:
  "length (join_positions ms) = sum_list (map (\<lambda>m. max 1 (length m)) ms)"
proof -
  have "map (\<lambda>x. length (case x of (p, m) \<Rightarrow> replicate (max 1 (length m)) p))
          (zip [0..<length ms] ms) = map (\<lambda>m. max 1 (length m)) ms"
    by (rule nth_equalityI) simp_all
  then show ?thesis
    by (simp add: join_positions_def enumerate_list_def length_concat o_def)
qed

lemma map_node_VInt:
  "map_node d v = VInt k \<Longrightarrow> \<exists>n k'. v = VInt n \<and> d n = Some k' \<and> k = int k'"
  by (cases v) (auto split: option.splits)

lemma unique_position:
  "map_of (zip u [0..<length u]) n = Some k \<Longrightarrow> k < length u \<and> u ! k = n"
proof -
  assume "map_of (zip u [0..<length u]) n = Some k"
  then have "(n, k) \<in> set (zip u [0..<length u])" by (rule map_of_SomeD)
  then obtain i where "i < length u" "u ! i = n" "[0..<length u] ! i = k"
    by (auto simp: in_set_zip)
  then show ?thesis by simp
qed

lemma node_idx_dict_position:
  "node_idx_dict node_id n = Some k \<Longrightarrow>
     k < length (unique (int_values node_id)) \<and> unique (int_values node_id) ! k = n"
  by (simp add: node_idx_dict_def Let_def unique_position)

lemma graph_assignment_rows:
  fixes eng :: "'g engine"
  assumes "graph_assignment eng s mb t = Ok s'"
  shows "\<exists>ev c tc geoms (node_id :: 'g val list) rows ev1 s2.
           events_data s = Some ev \<and> f_crs ev = Some c \<and> t_crs t = Some tc \<and>
           get_col (frame_to_crs eng c ''epsg:29193'' ev) ''geometry'' = Some geoms \<and>
           node_id = join_ids (graph_node_ids eng tc t geoms) \<and>
           rows = first_positions (map (\<lambda>p. f_index ev ! p)
                    (join_positions (graph_node_ids eng tc t geoms))) \<and>
           (\<forall>p\<in>set rows. p < length node_id) \<and>
           null_outside eng s2 mb (take_rows rows ev1) = Ok s' \<and>
           get_col (take_rows rows ev1) ''gdiscr'' =
             Some (map (\<lambda>p. map_node (node_idx_dict node_id) (node_id ! p)) rows)"
proof -
  from assms obtain ev c tc geoms where ev: "events_data s = Some ev" and c: "f_crs ev = Some c"
    and tc: "t_crs t = Some tc"
    and geoms: "get_col (frame_to_crs eng c ''epsg:29193'' ev) ''geometry'' = Some geoms"
    by (auto simp: graph_assignment_def Let_def split: option.splits)
  define ev29 where "ev29 = frame_to_crs eng c ''epsg:29193'' ev"
  define ms where "ms = graph_node_ids eng tc t geoms"
  define node_id :: "'g val list" where "node_id = join_ids ms"
  define col1 where "col1 = map (map_node (node_idx_dict node_id)) node_id"
  define joined where "joined = set_col ''node_id'' node_id
     (frame_to_crs eng ''epsg:29193'' (crs s) (take_rows (join_positions ms) ev29))"
  define ev1 where "ev1 = drop_col ''node_id'' (set_col ''gdiscr'' col1 joined)"
  define rows where "rows = first_positions (map (\<lambda>p. f_index ev ! p) (join_positions ms))"
  have idx: "f_index ev1 = map (\<lambda>p. f_index ev ! p) (join_positions ms)"
    by (simp add: ev1_def joined_def ev29_def drop_col_def set_col_def frame_to_crs_def
        take_rows_def)
  from assms ev c tc geoms
  have n: "null_outside eng (s\<lparr>events_data := Some (take_rows rows ev1)\<rparr>) mb (take_rows rows ev1)
             = Ok s'"
    unfolding rows_def idx[symmetric]
    by (auto simp: graph_assignment_def Let_def ev1_def joined_def col1_def node_id_def ms_def
        ev29_def split: if_splits)
  have col1: "get_col ev1 ''gdiscr'' = Some col1"
    by (simp add: ev1_def get_col_drop_col_other get_col_set_col_same)
  have len: "length node_id = length (join_positions ms)"
    by (simp add: node_id_def length_join_ids length_join_positions)
  have bound: "\<forall>p\<in>set rows. p < length node_id"
    using first_positions_bound[of _ "map (\<lambda>p. f_index ev ! p) (join_positions ms)"]
    by (auto simp: rows_def len)
  have "map (\<lambda>p. col1 ! p) rows = map (\<lambda>p. map_node (node_idx_dict node_id) (node_id ! p)) rows"
    using bound by (simp add: col1_def)
  then have gd0: "get_col (take_rows rows ev1) ''gdiscr'' =
     Some (map (\<lambda>p. map_node (node_idx_dict node_id) (node_id ! p)) rows)"
    by (simp add: get_col_take_rows col1)
  from ev c tc geoms n gd0 bound show ?thesis
    unfolding rows_def node_id_def ms_def by blast
qed

text \<open>
  C8. Whenever the graph-node discretization returns, the events table has a
  \<open>geometry\<close> and a \<open>gdiscr\<close> column with one entry per kept row of the join. Every event
  whose point, as the table holds it after the call (that is, after the way to epsg:29193
  and back), is not within the first border geometry has a null \<open>gdiscr\<close>, whatever node
  was nearest. Every non-null \<open>gdiscr\<close> of a row is the position, in the list of the
  distinct node ids of the join in order of first appearance, of the node id joined to
  that row: no id refers to anything but a node of the join.
\<close>

theorem graph_events_outside_border_null:
  fixes eng :: "'g engine"
  assumes "add_geo_discretization eng self ''G'' h rx ry cd = Ok self'"
  shows "\<exists>mb b rest custom ev0 c tc geoms (node_id :: 'g val list) rows ev gs gd.
           max_borders self = Some mb \<and> l_geometry mb = b # rest \<and>
           cd = Some custom \<and> events_data self = Some ev0 \<and> f_crs ev0 = Some c \<and>
           t_crs (custom_table eng self custom) = Some tc \<and>
           get_col (frame_to_crs eng c ''epsg:29193'' ev0) ''geometry'' = Some geoms \<and>
           node_id = join_ids (graph_node_ids eng tc (custom_table eng self custom) geoms) \<and>
           rows = first_positions (map (\<lambda>p. f_index ev0 ! p)
                    (join_positions
                       (graph_node_ids eng tc (custom_table eng self custom) geoms))) \<and>
           events_data self' = Some ev \<and>
           get_col ev ''geometry'' = Some gs \<and> get_col ev ''gdiscr'' = Some gd \<and>
           length gd = length gs \<and> length gs = length rows \<and>
           (\<forall>i<length gs.
              (\<forall>p. gs ! i = VGeom p \<and> \<not> geo_within eng p b \<longrightarrow> gd ! i = VNA) \<and>
              (\<forall>k. gd ! i = VInt k \<longrightarrow>
                 0 \<le> k \<and> rows ! i < length node_id \<and>
                 nat k < length (unique (int_values node_id)) \<and>
                 node_id ! (rows ! i) = VInt (unique (int_values node_id) ! nat k)))"
proof -
  from assms obtain mb custom where mb: "max_borders self = Some mb" and cd: "cd = Some custom"
    and g: "graph_assignment eng (self\<lparr>geo_discretization := Some (custom_table eng self custom)\<rparr>)
              mb (custom_table eng self custom) = Ok self'"
    by (auto simp: add_geo_discretization_def Let_def split: option.splits)
  define t where "t = custom_table eng self custom"
  from graph_assignment_rows[OF g] obtain ev0 c tc geoms ev1 s2 where
    ev0: "events_data self = Some ev0" and c: "f_crs ev0 = Some c" and tc: "t_crs t = Some tc"
    and geoms: "get_col (frame_to_crs eng c ''epsg:29193'' ev0) ''geometry'' = Some geoms"
    and bound: "\<forall>p\<in>set (first_positions (map (\<lambda>p. f_index ev0 ! p)
                    (join_positions (graph_node_ids eng tc t geoms)))).
                  p < length (join_ids (graph_node_ids eng tc t geoms) :: 'g val list)"
    and n: "null_outside eng s2 mb (take_rows (first_positions (map (\<lambda>p. f_index ev0 ! p)
                    (join_positions (graph_node_ids eng tc t geoms)))) ev1) = Ok self'"
    and col: "get_col (take_rows (first_positions (map (\<lambda>p. f_index ev0 ! p)
                    (join_positions (graph_node_ids eng tc t geoms)))) ev1) ''gdiscr'' =
              Some (map (\<lambda>p. map_node (node_idx_dict (join_ids (graph_node_ids eng tc t geoms) :: 'g val list))
                           ((join_ids (graph_node_ids eng tc t geoms) :: 'g val list) ! p))
                     (first_positions (map (\<lambda>p. f_index ev0 ! p)
                        (join_positions (graph_node_ids eng tc t geoms)))))"
    unfolding t_def by auto
  define node_id :: "'g val list" where "node_id = join_ids (graph_node_ids eng tc t geoms)"
  define rows where "rows = first_positions (map (\<lambda>p. f_index ev0 ! p)
                    (join_positions (graph_node_ids eng tc t geoms)))"
  define ev2 where "ev2 = take_rows rows ev1"
  define gd0 where "gd0 = map (\<lambda>p. map_node (node_idx_dict node_id) (node_id ! p)) rows"
  from bound have bound': "\<And>p. p \<in> set rows \<Longrightarrow> p < length node_id"
    by (simp add: rows_def node_id_def)
  from n have n': "null_outside eng s2 mb ev2 = Ok self'" by (simp add: ev2_def rows_def)
  from col have gd0: "get_col ev2 ''gdiscr'' = Some gd0"
    by (simp add: ev2_def rows_def gd0_def node_id_def)
  from null_outside_result[OF n'] gd0 obtain b rest gs where
    b: "l_geometry mb = b # rest" and gs: "get_col ev2 ''geometry'' = Some gs"
    and ev: "events_data self' = Some (set_col ''gdiscr''
               (map2 (\<lambda>g d. if outside eng b g then VNA else d) gs gd0) ev2)"
    by auto
  define gd where "gd = map2 (\<lambda>g d. if outside eng b g then VNA else d) gs gd0"
  define ev' where "ev' = set_col ''gdiscr'' gd ev2"
  have len: "length gs = length rows" "length gd0 = length rows"
    using take_rows_col_length[OF gs[unfolded ev2_def]] by (simp_all add: gd0_def)
  have c1: "get_col ev' ''geometry'' = Some gs"
    using gs by (simp add: ev'_def get_col_set_col_other)
  have c2: "get_col ev' ''gdiscr'' = Some gd"
    unfolding ev'_def by (rule get_col_set_col_same)
  have c3: "length gd = length gs" using len by (simp add: gd_def)
  have row: "gd ! i = (if outside eng b (gs ! i) then VNA
                       else map_node (node_idx_dict node_id) (node_id ! (rows ! i)))"
    if "i < length gs" for i
    using that len by (simp add: gd_def gd0_def)
  have c4: "\<forall>i<length gs.
              (\<forall>p. gs ! i = VGeom p \<and> \<not> geo_within eng p b \<longrightarrow> gd ! i = VNA) \<and>
              (\<forall>k. gd ! i = VInt k \<longrightarrow>
                 0 \<le> k \<and> rows ! i < length node_id \<and>
                 nat k < length (unique (int_values node_id)) \<and>
                 node_id ! (rows ! i) = VInt (unique (int_values node_id) ! nat k))"
  proof (intro allI impI conjI)
    fix i p assume i: "i < length gs" and p: "gs ! i = VGeom p \<and> \<not> geo_within eng p b"
    with row[OF i] show "gd ! i = VNA" by simp
  next
    fix i k assume i: "i < length gs" and k: "gd ! i = VInt k"
    from k row[OF i] have m: "map_node (node_idx_dict node_id) (node_id ! (rows ! i)) = VInt k"
      by (simp split: if_splits)
    from map_node_VInt[OF m] obtain n k' where v: "node_id ! (rows ! i) = VInt n"
      and d: "node_idx_dict node_id n = Some k'" and kk: "k = int k'" by blast
    from node_idx_dict_position[OF d] have pos: "k' < length (unique (int_values node_id))"
      "unique (int_values node_id) ! k' = n" by simp_all
    from i len have "rows ! i \<in> set rows" by simp
    then have r: "rows ! i < length node_id" by (rule bound')
    show "0 \<le> k" using kk by simp
    show "rows ! i < length node_id" by (rule r)
    show "nat k < length (unique (int_values node_id))" using pos kk by simp
    show "node_id ! (rows ! i) = VInt (unique (int_values node_id) ! nat k)"
      using v pos kk by simp
  qed
  from mb b cd ev0 c tc geoms ev c1 c2 c3 len(1) c4 show ?thesis
    unfolding ev'_def[symmetric] gd_def[symmetric] node_id_def rows_def t_def by blast
qed

lemma far_event_assigned:
  "add_geo_discretization shifting_engine far_session ''G'' None None None (Some demo_cells) =
   Ok (far_session\<lparr>events_data := Some far_assigned,
                    geo_discretization := Some demo_node_table\<rparr>)"
  by code_simp

text \<open>
  C8, the claim as worded fails. The mask of the last statement is computed on the
  geometry the table holds after the reprojection to epsg:29193 and back, not on the point
  the caller gave. In \<open>far_session\<close> the one event is given at \<open>(5, 11)\<close>, outside the border
  \<open>(0, 0)\<close> to \<open>(10, 10)\<close>; the round trip stores it at \<open>(5, 9)\<close>, inside, and the event keeps
  the id 0 of its nearest node.
\<close>

theorem original_point_outside_assigned:
  "events_data far_session =
     Some \<lparr>f_index = [0], f_columns = [(''geometry'', [VGeom ((5, 11), (5, 11))])],
           f_crs = Some ''epsg:4326'', f_geo = True\<rparr> \<and>
   max_borders far_session = Some demo_border \<and>
   l_geometry demo_border = [((0, 0), (10, 10))] \<and>
   \<not> geo_within shifting_engine ((5, 11), (5, 11)) ((0, 0), (10, 10)) \<and>
   add_geo_discretization shifting_engine far_session ''G'' None None None (Some demo_cells) =
     Ok (far_session\<lparr>events_data := Some far_assigned,
                      geo_discretization := Some demo_node_table\<rparr>) \<and>
   get_col far_assigned ''gdiscr'' = Some [VInt 0]"
  using far_event_assigned
  by (simp add: far_session_def demo_border_def far_assigned_def get_col_def
      shifting_engine_def demo_engine_def box_within_def)

subsection \<open>Failures and the session state\<close>


lemmas msg_defs =
  msg_inform_events_def msg_data_or_method_def msg_frequency_multiple_def
  msg_frequency_sum_def msg_inform_limits_def msg_custom_polygons_def msg_custom_graph_def
  msg_naive_geometries_def msg_none_has_no_def invalid_discr_prefix_def

lemma documented_invalid: "documented (ValueError (msg_invalid_discr_type d))"
  by (simp add: msg_invalid_discr_type_def invalid_discr_prefix_def)


lemma not_documented_none: "\<not> documented (AttributeError (msg_none_has_no a))"
  by (simp add: msg_defs)





declare documented.simps [simp del]

















lemmas demo_defs =
  demo_engine_def demo_session_def demo_border_def demo_cells_def demo_borders_only_def
  demo_polygon_table_def demo_node_table_def demo_assigned_def init_def box_within_def
  box_disjoint_def

lemmas frame_defs =
  get_col_def set_col_def drop_col_def take_rows_def column_names_def frame_to_crs_def

lemma demo_polygons_without_events:
  "add_geo_discretization demo_engine demo_borders_only ''C'' None None None (Some demo_cells) =
   Raised (AttributeError (msg_none_has_no ''drop''))
     (demo_borders_only\<lparr>geo_discretization := Some demo_polygon_table\<rparr>)"
  by (simp add: add_geo_discretization_def demo_defs custom_table_def enumerate_list_def
      compute_neighbors_def new_cell_def finish_discretization_def assign_events_def
      upt_conv_Cons Let_def)

lemma demo_polygons:
  "add_geo_discretization demo_engine demo_session ''C'' None None None (Some demo_cells) =
   Ok (demo_session\<lparr>events_data := Some demo_assigned,
                     geo_discretization := Some demo_polygon_table\<rparr>)"
  by (simp add: add_geo_discretization_def demo_defs custom_table_def enumerate_list_def
      compute_neighbors_def new_cell_def finish_discretization_def assign_events_def
      join_matches_def join_positions_def join_ids_def frame_defs upt_conv_Cons Let_def)

lemma demo_nodes:
  "add_geo_discretization demo_engine demo_session ''G'' None None None (Some demo_cells) =
   Ok (demo_session\<lparr>events_data := Some demo_assigned,
                     geo_discretization := Some demo_node_table\<rparr>)"
  by code_simp









text \<open>
  A failure that is not one of the aggregator's own errors can leave the session changed:
  with borders set and no events data, the custom-polygon discretization stores the new
  table in the session and then fails on \<open>self.events_data.drop\<close> of \<open>None\<close>.
\<close>

lemma failure_after_table_replaced:
  "add_geo_discretization demo_engine demo_borders_only ''C'' None None None (Some demo_cells) =
     Raised (AttributeError (msg_none_has_no ''drop''))
       (demo_borders_only\<lparr>geo_discretization := Some demo_polygon_table\<rparr>) \<and>
   \<not> documented (AttributeError (msg_none_has_no ''drop'')) \<and>
   geo_discretization demo_borders_only = None \<and>
   events_data demo_borders_only = None"
  using demo_polygons_without_events not_documented_none
  by (simp add: demo_borders_only_def init_def)

theorem discretization_ids_contiguous_witness:
  "add_geo_discretization demo_engine demo_session ''C'' None None None (Some demo_cells) =
     Ok (demo_session\<lparr>events_data := Some demo_assigned,
                       geo_discretization := Some demo_polygon_table\<rparr>) \<and>
   map cell_id (cells demo_polygon_table) = [0, 1]"
  using discretization_ids_contiguous
    [where eng = demo_engine and self = demo_session and discr_type = "''C''" and h = None
       and rx = None and ry = None and cd = "Some demo_cells"
       and self' = "demo_session\<lparr>events_data := Some demo_assigned,
                                 geo_discretization := Some demo_polygon_table\<rparr>"]
    demo_polygons
  by (simp add: demo_polygon_table_def)

theorem graph_events_outside_border_null_witness:
  "add_geo_discretization demo_engine demo_session ''G'' None None None (Some demo_cells) =
     Ok (demo_session\<lparr>events_data := Some demo_assigned,
                       geo_discretization := Some demo_node_table\<rparr>) \<and>
   max_borders demo_session = Some demo_border \<and>
   l_geometry demo_border = [((0, 0), (10, 10))] \<and>
   get_col demo_assigned ''geometry'' = Some [VGeom ((2, 3), (2, 3)), VGeom ((7, 20), (7, 20))] \<and>
   \<not> geo_within demo_engine ((7, 20), (7, 20)) ((0, 0), (10, 10)) \<and>
   get_col demo_assigned ''gdiscr'' = Some [VInt 0, VNA]"
  using graph_events_outside_border_null
    [where eng = demo_engine and self = demo_session and h = None
       and rx = None and ry = None and cd = "Some demo_cells"
       and self' = "demo_session\<lparr>events_data := Some demo_assigned,
                                 geo_discretization := Some demo_node_table\<rparr>"]
    demo_nodes
  by (simp add: demo_session_def demo_border_def demo_assigned_def get_col_def demo_engine_def
      box_within_def)

end
